theory Spec2Isabelle
  imports Complex_Main "HOL-Library.Char_ord" "HOL-Library.List_Lexorder"
begin

section \<open>Values held in documents and data frames\<close>

text \<open>
  The two programs (\<^verbatim>\<open>Recommendation_dashboard.py\<close> and \<^verbatim>\<open>dashboard.py\<close>) exchange
  Python values with the GitHub API and with one MongoDB collection. A value is \<open>None\<close>,
  a boolean, an integer, a string, a list, a dictionary (an association list: MongoDB
  documents and Python dictionaries keep insertion order) or a parsed datetime.
\<close>

datatype val =
    VNone
  | VBool bool
  | VInt int
  | VStr string
  | VList "val list"
  | VDict "(string \<times> val) list"
  | VDate string

type_synonym doc = "(string \<times> val) list"

section \<open>The analyzer of \<^verbatim>\<open>Recommendation_dashboard.py\<close>\<close>

text \<open>
  A data frame is the list of its rows, in positional order; \<^verbatim>\<open>load_data\<close> builds it
  with \<^verbatim>\<open>reset_index(drop=True)\<close>, so the index label of a row is its position. A row
  carries the columns the analyzer reads.
\<close>

record row =
  Login :: val
  Profile_URL :: val
  Avatar_URL :: val
  Languages :: val
  LanguagesList :: "string list"

text \<open>
  \<^verbatim>\<open>df['LanguagesList'] = df['Languages'].apply(lambda x: list(x.keys()) if isinstance(x, dict) else [])\<close>
  and the rows with a non-empty list are kept.
\<close>

definition languages_keys :: "val \<Rightarrow> string list" where
  "languages_keys x = (case x of VDict kvs \<Rightarrow> map fst kvs | _ \<Rightarrow> [])"

definition preprocess_languages :: "row list \<Rightarrow> row list" where
  "preprocess_languages df =
     (let df' = map (\<lambda>r. r\<lparr>LanguagesList := languages_keys (Languages r)\<rparr>) df
      in filter (\<lambda>r. length (LanguagesList r) > 0) df')"

text \<open>
  \<^verbatim>\<open>MultiLabelBinarizer().fit_transform(y)\<close>: the classes are the sorted distinct labels,
  and row \<open>i\<close> has a 1 in the column of every label of \<open>y[i]\<close>, 0 elsewhere.
\<close>

definition mlb_classes :: "string list list \<Rightarrow> string list" where
  "mlb_classes y = sort (remdups (concat y))"

definition fit_transform :: "string list list \<Rightarrow> int list list" where
  "fit_transform y =
     (let classes = mlb_classes y
      in map (\<lambda>labels. map (\<lambda>c. if c \<in> set labels then 1 else 0) classes) y)"

text \<open>
  \<^verbatim>\<open>sklearn.metrics.pairwise.cosine_similarity(X)\<close> scales every row to unit Euclidean
  length (a row of norm 0 is divided by 1 instead and stays 0) and returns the matrix of
  dot products of the scaled rows. The float64 arithmetic of numpy is idealised as
  arithmetic on the reals.
\<close>

definition row_norm :: "int list \<Rightarrow> real" where
  "row_norm x = sqrt (\<Sum>v\<leftarrow>x. (real_of_int v)\<^sup>2)"

definition normalize_row :: "int list \<Rightarrow> real list" where
  "normalize_row x =
     (let n = row_norm x; n' = (if n = 0 then 1 else n)
      in map (\<lambda>v. real_of_int v / n') x)"

definition dot :: "real list \<Rightarrow> real list \<Rightarrow> real" where
  "dot x y = (\<Sum>(a, b)\<leftarrow>zip x y. a * b)"

definition cosine_similarity :: "int list list \<Rightarrow> real list list" where
  "cosine_similarity X =
     (let Xn = map normalize_row X
      in map (\<lambda>x. map (\<lambda>y. dot x y) Xn) Xn)"

text \<open>
  \<^verbatim>\<open>round(score, 3)\<close> on a numpy float: the value times 1000 is rounded to the nearest
  integer, a tie going to the even neighbour, and divided by 1000.
\<close>

definition rint :: "real \<Rightarrow> int" where
  "rint x =
     (let f = \<lfloor>x\<rfloor>; d = x - of_int f
      in if d < 1 / 2 then f
         else if 1 / 2 < d then f + 1
         else if even f then f else f + 1)"

definition round3 :: "real \<Rightarrow> real" where
  "round3 x = of_int (rint (x * 1000)) / 1000"

text \<open>\<^verbatim>\<open>df.index[df['Login'] == username][0]\<close>: the position of the first row with the login.\<close>

fun first_index :: "('a \<Rightarrow> bool) \<Rightarrow> 'a list \<Rightarrow> nat" where
  "first_index P [] = 0"
| "first_index P (x # xs) = (if P x then 0 else Suc (first_index P xs))"

text \<open>\<^verbatim>\<open>sorted(xs, key=k, reverse=True)\<close>: a stable sort by descending key.\<close>

definition sorted_reverse :: "('a \<Rightarrow> real) \<Rightarrow> 'a list \<Rightarrow> 'a list" where
  "sorted_reverse k xs = sort_key (\<lambda>x. - k x) xs"

text \<open>
  The slice \<^verbatim>\<open>xs[:n]\<close>: the first \<open>n\<close> items for \<open>n \<ge> 0\<close>; for a negative \<open>n\<close>, all but
  the last \<open>-n\<close> items.
\<close>

definition slice_to :: "int \<Rightarrow> 'a list \<Rightarrow> 'a list" where
  "slice_to n xs =
     (if 0 \<le> n then take (nat n) xs else take (length xs - nat (- n)) xs)"

text \<open>
  One entry of the returned list. \<^verbatim>\<open>Common Languages\<close> is the text
  \<^verbatim>\<open>", ".join(common_langs)\<close> over a Python set, whose iteration order is not fixed
  by the language; the model keeps the set that is joined.
\<close>

record recommendation =
  rec_Login :: val
  rec_Profile_URL :: val
  Common_Languages :: "string set"
  Similarity_Score :: real
  Avatar :: val

definition get_recommendations :: "row list \<Rightarrow> string \<Rightarrow> int \<Rightarrow> recommendation list option" where
  "get_recommendations df username top_n =
     (if VStr username \<notin> set (map Login df) then None
      else
        let lang_matrix = fit_transform (map LanguagesList df);
            similarity = cosine_similarity lang_matrix;
            user_idx = first_index (\<lambda>r. Login r = VStr username) df;
            sim_scores = enumerate 0 (similarity ! user_idx);
            sim_scores1 = filter (\<lambda>(idx, score). idx \<noteq> user_idx) sim_scores;
            sim_scores2 = slice_to top_n (sorted_reverse snd sim_scores1);
            user_langs = set (LanguagesList (df ! user_idx))
        in Some (map (\<lambda>(idx, score).
             let rec_user = df ! idx;
                 rec_langs = set (LanguagesList rec_user);
                 common_langs = user_langs \<inter> rec_langs
             in \<lparr>rec_Login = Login rec_user,
                 rec_Profile_URL = Profile_URL rec_user,
                 Common_Languages = common_langs,
                 Similarity_Score = round3 score,
                 Avatar = Avatar_URL rec_user\<rparr>) sim_scores2))"

text \<open>The default of the parameter \<^verbatim>\<open>top_n\<close>.\<close>

definition default_top_n :: int where
  "default_top_n = 10"

section \<open>Python strings, dictionaries and truth values\<close>

text \<open>\<^verbatim>\<open>s.startswith(sub)\<close>.\<close>

definition startswith :: "string \<Rightarrow> string \<Rightarrow> bool" where
  "startswith s sub = (take (length sub) s = sub)"

text \<open>
  \<^verbatim>\<open>s.split(sep)\<close> for a non-empty separator: the pieces between the occurrences of
  \<open>sep\<close>, found from the left without overlap. Every call of the programs passes a
  non-empty literal separator.
\<close>

fun split_str :: "string \<Rightarrow> string \<Rightarrow> string list" where
  "split_str sep [] = [[]]"
| "split_str sep (c # cs) =
     (if sep \<noteq> [] \<and> startswith (c # cs) sep
      then [] # split_str sep (drop (length sep) (c # cs))
      else (let ps = split_str sep cs in (c # hd ps) # tl ps))"

text \<open>\<^verbatim>\<open>s.replace(old, new)\<close> for a non-empty \<open>old\<close>.\<close>

fun replace_str :: "string \<Rightarrow> string \<Rightarrow> string \<Rightarrow> string" where
  "replace_str old new [] = []"
| "replace_str old new (c # cs) =
     (if old \<noteq> [] \<and> startswith (c # cs) old
      then new @ replace_str old new (drop (length old) (c # cs))
      else c # replace_str old new cs)"

text \<open>\<^verbatim>\<open>sub in s\<close> on strings.\<close>

fun contains :: "string \<Rightarrow> string \<Rightarrow> bool" where
  "contains [] sub = (sub = [])"
| "contains (c # cs) sub = (startswith (c # cs) sub \<or> contains cs sub)"

text \<open>\<^verbatim>\<open>s.strip(chars)\<close>: the characters of \<open>chars\<close> are removed from both ends.\<close>

definition strip_chars :: "string \<Rightarrow> string \<Rightarrow> string" where
  "strip_chars s chars =
     rev (dropWhile (\<lambda>c. c \<in> set chars) (rev (dropWhile (\<lambda>c. c \<in> set chars) s)))"

text \<open>
  \<^verbatim>\<open>int(s)\<close> on an ASCII string: surrounding whitespace is dropped, one sign is allowed,
  and the rest is decimal digits, single underscores allowed between two digits. \<open>None\<close>
  stands for \<^verbatim>\<open>ValueError\<close>.
\<close>

definition is_digit :: "char \<Rightarrow> bool" where
  "is_digit c = (CHR ''0'' \<le> c \<and> c \<le> CHR ''9'')"

definition digit_value :: "char \<Rightarrow> nat" where
  "digit_value c = of_char c - 48"

fun digits_value :: "nat \<Rightarrow> string \<Rightarrow> nat option" where
  "digits_value acc [] = Some acc"
| "digits_value acc [c] = (if is_digit c then Some (10 * acc + digit_value c) else None)"
| "digits_value acc (c # d # cs) =
     (if is_digit c then
        (if d = CHR ''_'' then
           (case cs of [] \<Rightarrow> None
            | e # es \<Rightarrow> if is_digit e then digits_value (10 * acc + digit_value c) cs else None)
         else digits_value (10 * acc + digit_value c) (d # cs))
      else None)"

definition whitespace :: string where
  "whitespace = [CHR '' '', CHR 0x09, CHR 0x0A, CHR 0x0B, CHR 0x0C, CHR 0x0D]"

definition py_int :: "string \<Rightarrow> int option" where
  "py_int s =
     (let t = strip_chars s whitespace;
          negative = (t \<noteq> [] \<and> hd t = CHR ''-'');
          signed = (t \<noteq> [] \<and> (hd t = CHR ''-'' \<or> hd t = CHR ''+''));
          ds = (if signed then tl t else t)
      in if ds = [] then None
         else (case digits_value 0 ds of
                 None \<Rightarrow> None
               | Some n \<Rightarrow> Some (if negative then - int n else int n)))"

text \<open>The lower-case form of an ASCII string: header names compare without case.\<close>

definition lower_char :: "char \<Rightarrow> char" where
  "lower_char c =
     (if CHR ''A'' \<le> c \<and> c \<le> CHR ''Z'' then char_of (of_char c + (32::nat)) else c)"

definition lower :: "string \<Rightarrow> string" where
  "lower s = map lower_char s"

text \<open>
  Dictionaries with string keys are association lists with distinct keys:
  \<^verbatim>\<open>d.get(k, default)\<close> and \<^verbatim>\<open>d[k] = v\<close>, which keeps the position of an existing key and
  appends a new one.
\<close>

definition dict_get :: "('k \<times> 'v) list \<Rightarrow> 'k \<Rightarrow> 'v \<Rightarrow> 'v" where
  "dict_get d k dflt = (case map_of d k of None \<Rightarrow> dflt | Some v \<Rightarrow> v)"

fun dict_set :: "('k \<times> 'v) list \<Rightarrow> 'k \<Rightarrow> 'v \<Rightarrow> ('k \<times> 'v) list" where
  "dict_set [] k v = [(k, v)]"
| "dict_set ((k', v') # d) k v =
     (if k' = k then (k, v) # d else (k', v') # dict_set d k v)"

text \<open>\<^verbatim>\<open>d.get(k)\<close> on a decoded JSON object: \<open>None\<close> for a missing key.\<close>

definition py_get :: "doc \<Rightarrow> string \<Rightarrow> val" where
  "py_get d k = dict_get d k VNone"

text \<open>The truth value of a Python value, and \<^verbatim>\<open>a or b\<close>.\<close>

fun truthy :: "val \<Rightarrow> bool" where
  "truthy VNone = False"
| "truthy (VBool b) = b"
| "truthy (VInt n) = (n \<noteq> 0)"
| "truthy (VStr s) = (s \<noteq> [])"
| "truthy (VList xs) = (xs \<noteq> [])"
| "truthy (VDict kvs) = (kvs \<noteq> [])"
| "truthy (VDate d) = True"

definition py_or :: "val \<Rightarrow> val \<Rightarrow> val" where
  "py_or a b = (if truthy a then a else b)"

text \<open>
  The same on a field that the API schema types as a string or an integer, \<open>None\<close> being
  JSON \<^verbatim>\<open>null\<close> or a missing key: \<^verbatim>\<open>repo.get("language") or "Unknown"\<close>,
  \<^verbatim>\<open>repo.get("size") or 0\<close>.
\<close>

definition or_str :: "string option \<Rightarrow> string \<Rightarrow> string" where
  "or_str a b = (case a of None \<Rightarrow> b | Some s \<Rightarrow> if s \<noteq> [] then s else b)"

definition or_int :: "int option \<Rightarrow> int \<Rightarrow> int" where
  "or_int a b = (case a of None \<Rightarrow> b | Some n \<Rightarrow> if n \<noteq> 0 then n else b)"

section \<open>The GitHub API and the document store\<close>

text \<open>The exceptions that the programs can meet.\<close>

datatype exn =
    HTTPError int
  | ConnectionError
  | JSONDecodeError
  | MissingSchema
  | KeyError string
  | AttributeError
  | ValueError
  | ServerSelectionTimeoutError

text \<open>
  A response of \<^verbatim>\<open>requests.get\<close>: the status code, the headers and the decoded body,
  \<open>None\<close> when the body is not JSON (\<^verbatim>\<open>response.json()\<close> raises). A decoded body is
  taken to follow the schema of the GitHub REST API: the fields the programs read have
  the JSON type of the schema, or are \<^verbatim>\<open>null\<close> or missing.
\<close>

datatype 'a response =
  Response (status_code: int) (headers: "(string \<times> string) list") (body: "'a option")

text \<open>
  A repository object, with the fields the programs read. \<^verbatim>\<open>languages_url\<close> and
  \<^verbatim>\<open>commits_url\<close> are read by subscript, which raises on a missing key.
\<close>

record repo =
  name :: "string option"
  language :: "string option"
  stargazers_count :: "int option"
  repo_size :: "int option"
  fork :: "bool option"
  languages_url :: "string option"
  commits_url :: "string option"

text \<open>
  A commit object: the value of \<^verbatim>\<open>commit["commit"]["author"]["date"]\<close>, \<open>None\<close> when
  one of the keys is missing. The body of a commits request is a list of commits or,
  against the schema, a JSON object.
\<close>

record commit =
  commit_date :: "string option"

datatype commits_body = CommitList "commit list" | CommitObject doc

text \<open>
  The remote platform: for every kind of endpoint, the answer to a request to a URL as
  the \<open>n\<close>-th request of the session; \<open>None\<close> when no response arrives
  (\<^verbatim>\<open>requests.get\<close> raises). The authorisation header is the same on every request and
  is left out.
\<close>

type_synonym 'a endpoint = "string \<Rightarrow> nat \<Rightarrow> 'a response option"

record github =
  profile_at :: "doc endpoint"
  repos_at :: "repo list endpoint"
  items_at :: "doc list endpoint"
  languages_at :: "(string \<times> int) list endpoint"
  commits_at :: "commits_body endpoint"

text \<open>
  What a run does to the outside: the requests it sends and the time it sleeps. The
  messages and spinners that Streamlit shows are not modelled.
\<close>

datatype event = Request string | Sleep nat

text \<open>
  The state that the functions thread: the number of requests sent so far, the events so
  far, and the MongoDB collection \<^verbatim>\<open>github_db.user_data\<close> that both programs share. A
  stored document maps field names to values; \<open>store_up\<close> tells whether the store answers;
  \<open>next_id\<close> is the next \<^verbatim>\<open>_id\<close> the store hands out.
\<close>

type_synonym stored = "string \<rightharpoonup> val"

record world =
  clock :: nat
  trace :: "event list"
  collection :: "stored list"
  next_id :: int
  store_up :: bool

subsection \<open>Computations that may raise\<close>

text \<open>
  A computation takes the state and gives an exception or a value, and the new state.
  \<open>io_bind\<close> runs a computation and then the next one on its value, an exception ending
  the sequence; \<open>try_except m d\<close> is \<^verbatim>\<open>try: return m  except Exception: return d\<close>.
\<close>

type_synonym 'a io = "world \<Rightarrow> (exn + 'a) \<times> world"

definition returns :: "'a \<Rightarrow> 'a io" where
  "returns x w = (Inr x, w)"

definition raises :: "exn \<Rightarrow> 'a io" where
  "raises e w = (Inl e, w)"

definition lift :: "exn + 'a \<Rightarrow> 'a io" where
  "lift r w = (r, w)"

definition io_bind :: "'a io \<Rightarrow> ('a \<Rightarrow> 'b io) \<Rightarrow> 'b io" where
  "io_bind m f w = (case m w of (Inl e, w') \<Rightarrow> (Inl e, w') | (Inr x, w') \<Rightarrow> f x w')"

definition try_except :: "'a io \<Rightarrow> 'a \<Rightarrow> 'a io" where
  "try_except m d w = (case m w of (Inl e, w') \<Rightarrow> (Inr d, w') | (Inr x, w') \<Rightarrow> (Inr x, w'))"

subsection \<open>Requests\<close>

definition requests_get :: "'a endpoint \<Rightarrow> string \<Rightarrow> 'a response io" where
  "requests_get ep url w =
     (let w' = w\<lparr>clock := clock w + 1, trace := trace w @ [Request url]\<rparr>
      in case ep url (clock w) of
           None \<Rightarrow> (Inl ConnectionError, w')
         | Some response \<Rightarrow> (Inr response, w'))"

definition time_sleep :: "nat \<Rightarrow> unit io" where
  "time_sleep seconds w = (Inr (), w\<lparr>trace := trace w @ [Sleep seconds]\<rparr>)"

definition raise_for_status :: "'a response \<Rightarrow> exn + unit" where
  "raise_for_status response =
     (if 400 \<le> status_code response \<and> status_code response < 600
      then Inl (HTTPError (status_code response)) else Inr ())"

definition json :: "'a response \<Rightarrow> exn + 'a" where
  "json response = (case body response of None \<Rightarrow> Inl JSONDecodeError | Some b \<Rightarrow> Inr b)"

text \<open>
  \<^verbatim>\<open>requests.get(url, params={'per_page': 1})\<close> sends the URL with the parameter in its
  query.
\<close>

definition with_params :: "string \<Rightarrow> string \<Rightarrow> string" where
  "with_params url query =
     url @ (if CHR ''?'' \<in> set url then ''&'' else ''?'') @ query"

subsection \<open>The collection\<close>

text \<open>\<^verbatim>\<open>collection.find_one({"Login": username})\<close>: the first document with the login.\<close>

definition matches_login :: "string \<Rightarrow> stored \<Rightarrow> bool" where
  "matches_login username d = (d ''Login'' = Some (VStr username))"

definition find_one :: "string \<Rightarrow> stored option io" where
  "find_one username w =
     (if \<not> store_up w then (Inl ServerSelectionTimeoutError, w)
      else (Inr (find (matches_login username) (collection w)), w))"

text \<open>
  \<^verbatim>\<open>collection.insert_one(document)\<close>: the document is added under a fresh \<^verbatim>\<open>_id\<close>,
  whatever the collection holds. The driver writes the \<^verbatim>\<open>_id\<close> into the dictionary it
  was given; the model returns the document as stored.
\<close>

definition insert_one :: "doc \<Rightarrow> stored io" where
  "insert_one document w =
     (if \<not> store_up w then (Inl ServerSelectionTimeoutError, w)
      else (Inr ((map_of document)(''_id'' \<mapsto> VInt (next_id w))),
            w\<lparr>collection := collection w @ [(map_of document)(''_id'' \<mapsto> VInt (next_id w))],
              next_id := next_id w + 1\<rparr>))"

text \<open>
  \<^verbatim>\<open>collection.update_one({"Login": username}, {"$set": data}, upsert=True)\<close>: in the
  first document with the login, every field of \<open>data\<close> is set and the other fields stay;
  without such a document, one is inserted with a fresh \<^verbatim>\<open>_id\<close>, the login of the
  filter and the fields of \<open>data\<close> set over it.
\<close>

fun set_in_first :: "(stored \<Rightarrow> bool) \<Rightarrow> doc \<Rightarrow> stored list \<Rightarrow> stored list" where
  "set_in_first P data [] = []"
| "set_in_first P data (d # ds) =
     (if P d then (d ++ map_of data) # ds else d # set_in_first P data ds)"

definition update_one :: "string \<Rightarrow> doc \<Rightarrow> unit io" where
  "update_one username data w =
     (if \<not> store_up w then (Inl ServerSelectionTimeoutError, w)
      else if list_ex (matches_login username) (collection w)
      then (Inr (), w\<lparr>collection := set_in_first (matches_login username) data (collection w)\<rparr>)
      else (Inr (),
            w\<lparr>collection := collection w @
                 [[''_id'' \<mapsto> VInt (next_id w), ''Login'' \<mapsto> VStr username] ++ map_of data],
              next_id := next_id w + 1\<rparr>))"

section \<open>The fetcher of \<^verbatim>\<open>Recommendation_dashboard.py\<close>\<close>

text \<open>
  \<^verbatim>\<open>get_json(url)\<close>: one request; on status 403 a sleep of 60 seconds and the same
  request once more; then \<^verbatim>\<open>raise_for_status\<close> and the decoded body. A URL that is not
  a string (\<^verbatim>\<open>None\<close> from a missing profile field) makes \<^verbatim>\<open>requests.get\<close> raise
  before anything is sent.
\<close>

definition checked_json :: "'a response \<Rightarrow> exn + 'a" where
  "checked_json response =
     (case raise_for_status response of Inl e \<Rightarrow> Inl e | Inr _ \<Rightarrow> json response)"

definition get_json :: "'a endpoint \<Rightarrow> val \<Rightarrow> 'a io" where
  "get_json ep url =
     (case url of
        VStr u \<Rightarrow>
          io_bind (requests_get ep u) (\<lambda>response.
            if status_code response = 403 then
              io_bind (time_sleep 60) (\<lambda>_.
              io_bind (requests_get ep u) (\<lambda>response'.
              lift (checked_json response')))
            else lift (checked_json response))
      | _ \<Rightarrow> raises MissingSchema)"

text \<open>\<^verbatim>\<open>[item[key] for item in items]\<close>, which raises when an item lacks the key.\<close>

fun subscripts :: "string \<Rightarrow> doc list \<Rightarrow> exn + val list" where
  "subscripts key [] = Inr []"
| "subscripts key (item # items) =
     (case map_of item key of
        None \<Rightarrow> Inl (KeyError key)
      | Some v \<Rightarrow> (case subscripts key items of Inl e \<Rightarrow> Inl e | Inr vs \<Rightarrow> Inr (v # vs)))"

definition get_list :: "github \<Rightarrow> val \<Rightarrow> string \<Rightarrow> val list io" where
  "get_list gh url key =
     try_except
       (io_bind (get_json (items_at gh) url) (\<lambda>items. lift (subscripts key items)))
       []"

definition get_starred_or_subs :: "github \<Rightarrow> val \<Rightarrow> val list io" where
  "get_starred_or_subs gh url =
     try_except
       (io_bind (get_json (items_at gh) url) (\<lambda>items. lift (subscripts ''html_url'' items)))
       []"

definition add_languages :: "(string \<times> int) list \<Rightarrow> (string \<times> int) list \<Rightarrow> (string \<times> int) list" where
  "add_languages langs language_data =
     fold (\<lambda>(lang, count) d. dict_set d lang (dict_get d lang 0 + count)) langs language_data"

fun languages_loop :: "github \<Rightarrow> repo list \<Rightarrow> (string \<times> int) list \<Rightarrow> (string \<times> int) list io" where
  "languages_loop gh [] language_data = returns language_data"
| "languages_loop gh (repo # repos) language_data =
     (case languages_url repo of
        None \<Rightarrow> raises (KeyError ''languages_url'')
      | Some url \<Rightarrow>
          io_bind (get_json (languages_at gh) (VStr url)) (\<lambda>langs.
          languages_loop gh repos (add_languages langs language_data)))"

definition user_repos_url :: "string \<Rightarrow> string" where
  "user_repos_url username = ''https://api.github.com/users/'' @ username @ ''/repos''"

definition get_languages :: "github \<Rightarrow> string \<Rightarrow> (string \<times> int) list io" where
  "get_languages gh username =
     try_except
       (io_bind (get_json (repos_at gh) (VStr (user_repos_url username))) (\<lambda>repos.
        languages_loop gh repos []))
       []"

text \<open>
  \<^verbatim>\<open>get_total_commits\<close>: forks are skipped; the commits of every other repository are
  requested directly with \<^verbatim>\<open>per_page=1\<close>, and a response with status 200 that is a
  list adds its length.
\<close>

definition is_fork :: "repo \<Rightarrow> bool" where
  "is_fork repo = (fork repo = Some True)"

definition listed_commits :: "commits_body \<Rightarrow> int" where
  "listed_commits commits =
     (case commits of CommitList cs \<Rightarrow> int (length cs) | CommitObject d \<Rightarrow> 0)"

fun total_commits_loop :: "github \<Rightarrow> repo list \<Rightarrow> int \<Rightarrow> int io" where
  "total_commits_loop gh [] tot = returns tot"
| "total_commits_loop gh (repo # repos) tot =
     (if is_fork repo then total_commits_loop gh repos tot
      else
        (case commits_url repo of
           None \<Rightarrow> raises (KeyError ''commits_url'')
         | Some u \<Rightarrow>
             io_bind (requests_get (commits_at gh)
                        (with_params (replace_str ''{/sha}'' [] u) ''per_page=1'')) (\<lambda>commits_resp.
               if status_code commits_resp = 200 then
                 io_bind (lift (json commits_resp)) (\<lambda>commits.
                 total_commits_loop gh repos (tot + listed_commits commits))
               else total_commits_loop gh repos tot)))"

definition get_total_commits :: "github \<Rightarrow> string \<Rightarrow> int io" where
  "get_total_commits gh username =
     try_except
       (io_bind (get_json (repos_at gh) (VStr (user_repos_url username))) (\<lambda>repos.
        total_commits_loop gh repos 0))
       0"

definition int_dict_val :: "(string \<times> int) list \<Rightarrow> val" where
  "int_dict_val d = VDict (map (\<lambda>(k, n). (k, VInt n)) d)"

text \<open>
  \<^verbatim>\<open>fetch_and_store_user\<close>: the profile, then the fields of the record in the order of
  the dictionary display, then the upsert; any exception on the way gives \<^verbatim>\<open>None\<close>.
  \<^verbatim>\<open>user.get("following_url").split("{")[0]\<close> raises when the profile has no such
  string.
\<close>

definition users_url :: "string \<Rightarrow> string" where
  "users_url username = ''https://api.github.com/users/'' @ username"

definition following_base :: "val \<Rightarrow> exn + string" where
  "following_base following_url =
     (case following_url of VStr s \<Rightarrow> Inr (hd (split_str ''{'' s)) | _ \<Rightarrow> Inl AttributeError)"

definition user_record ::
  "doc \<Rightarrow> val list \<Rightarrow> val list \<Rightarrow> val list \<Rightarrow> val list \<Rightarrow> val list
     \<Rightarrow> (string \<times> int) list \<Rightarrow> int \<Rightarrow> doc" where
  "user_record user followers following starred subscriptions organizations langs tot =
     [(''Login'', py_get user ''login''),
      (''Name'', py_get user ''name''),
      (''Bio'', py_get user ''bio''),
      (''Public Repositories'', py_get user ''public_repos''),
      (''Followers Count'', py_get user ''followers''),
      (''Following Count'', py_get user ''following''),
      (''Created At'', py_get user ''created_at''),
      (''Updated At'', py_get user ''updated_at''),
      (''Avatar URL'', py_get user ''avatar_url''),
      (''Profile URL'', py_get user ''html_url''),
      (''Followers List'', VList followers),
      (''Following List'', VList following),
      (''Starred Repositories'', VList starred),
      (''Subscriptions'', VList subscriptions),
      (''Organizations'', VList organizations),
      (''Languages'', int_dict_val langs),
      (''Total Commits'', VInt tot)]"

definition fetch_and_store_user :: "github \<Rightarrow> string \<Rightarrow> doc option io" where
  "fetch_and_store_user gh username =
     try_except
       (io_bind (get_json (profile_at gh) (VStr (users_url username))) (\<lambda>user.
        io_bind (get_list gh (py_get user ''followers_url'') ''login'') (\<lambda>followers.
        io_bind (lift (following_base (py_get user ''following_url''))) (\<lambda>following_url.
        io_bind (get_list gh (VStr following_url) ''login'') (\<lambda>following.
        io_bind (get_starred_or_subs gh (VStr (users_url username @ ''/starred''))) (\<lambda>starred.
        io_bind (get_starred_or_subs gh (VStr (users_url username @ ''/subscriptions'')))
          (\<lambda>subscriptions.
        io_bind (get_list gh (VStr (users_url username @ ''/orgs'')) ''login'') (\<lambda>organizations.
        io_bind (get_languages gh username) (\<lambda>langs.
        io_bind (get_total_commits gh username) (\<lambda>tot.
        io_bind (update_one username
                   (user_record user followers following starred subscriptions organizations langs tot))
          (\<lambda>_.
        returns (Some
          (user_record user followers following starred subscriptions organizations langs tot))
        )))))))))))
       None"

section \<open>The fetcher of \<^verbatim>\<open>dashboard.py\<close>\<close>

text \<open>
  \<^verbatim>\<open>get_commit_count\<close>: one direct request with \<^verbatim>\<open>per_page=1\<close>. A status other than
  200 gives 0. With a \<^verbatim>\<open>Link\<close> header that has a \<^verbatim>\<open>rel="last"\<close> part, the number
  after the last \<^verbatim>\<open>page=\<close> of its URL is the count, 0 when it is not a number.
  Otherwise the count is the length of the body.
\<close>

definition header_value :: "(string \<times> string) list \<Rightarrow> string \<Rightarrow> string option" where
  "header_value hs key = map_of (map (\<lambda>(k, v). (lower k, v)) hs) (lower key)"

definition repo_commits_url :: "string \<Rightarrow> string \<Rightarrow> string \<Rightarrow> string" where
  "repo_commits_url username repo_name query =
     ''https://api.github.com/repos/'' @ username @ ''/'' @ repo_name @ ''/commits?'' @ query"

definition body_length :: "commits_body \<Rightarrow> int" where
  "body_length b = (case b of CommitList cs \<Rightarrow> int (length cs) | CommitObject d \<Rightarrow> int (length d))"

definition last_page :: "string \<Rightarrow> int option" where
  "last_page links =
     (case filter (\<lambda>link. contains link ''rel=\"last\"'') (split_str '','' links) of
        [] \<Rightarrow> None
      | link # _ \<Rightarrow>
          (let last_url = strip_chars (hd (split_str '';'' link)) ''<> ''
           in case py_int (last (split_str ''page='' last_url)) of
                None \<Rightarrow> Some 0
              | Some total_commits \<Rightarrow> Some total_commits))"

definition link_count :: "'a response \<Rightarrow> int option" where
  "link_count resp =
     (case header_value (headers resp) ''Link'' of
        None \<Rightarrow> None
      | Some links \<Rightarrow> last_page links)"

definition get_commit_count :: "github \<Rightarrow> string \<Rightarrow> string \<Rightarrow> int io" where
  "get_commit_count gh username repo_name =
     io_bind (requests_get (commits_at gh) (repo_commits_url username repo_name ''per_page=1''))
       (\<lambda>resp.
          if status_code resp \<noteq> 200 then returns 0
          else
            (case link_count resp of
               Some total_commits \<Rightarrow> returns total_commits
             | None \<Rightarrow> io_bind (lift (json resp)) (\<lambda>b. returns (body_length b))))"

text \<open>
  The dates of the commits of one response, parsed by \<^verbatim>\<open>dateutil\<close>'s
  \<^verbatim>\<open>parser.isoparse\<close>, a parameter of the model (\<open>None\<close>: it raises). Iterating a
  JSON object yields its keys, strings, on which \<^verbatim>\<open>.get\<close> raises.
\<close>

fun dates_loop :: "(string \<Rightarrow> val option) \<Rightarrow> commit list \<Rightarrow> val list \<Rightarrow> exn + val list" where
  "dates_loop isoparse [] commit_dates = Inr commit_dates"
| "dates_loop isoparse (c # cs) commit_dates =
     (case commit_date c of
        None \<Rightarrow> dates_loop isoparse cs commit_dates
      | Some date_str \<Rightarrow>
          if date_str = [] then dates_loop isoparse cs commit_dates
          else (case isoparse date_str of
                  None \<Rightarrow> Inl ValueError
                | Some d \<Rightarrow> dates_loop isoparse cs (commit_dates @ [d])))"

definition body_dates :: "(string \<Rightarrow> val option) \<Rightarrow> commits_body \<Rightarrow> val list \<Rightarrow> exn + val list" where
  "body_dates isoparse b commit_dates =
     (case b of
        CommitList cs \<Rightarrow> dates_loop isoparse cs commit_dates
      | CommitObject d \<Rightarrow> if d = [] then Inr commit_dates else Inl AttributeError)"

definition response_dates ::
  "(string \<Rightarrow> val option) \<Rightarrow> commits_body response \<Rightarrow> val list \<Rightarrow> exn + val list" where
  "response_dates isoparse commits_resp commit_dates =
     (if status_code commits_resp = 200
      then (case json commits_resp of
              Inl e \<Rightarrow> Inl e
            | Inr b \<Rightarrow> body_dates isoparse b commit_dates)
      else Inr commit_dates)"

record aggregates =
  languages :: "(string \<times> int) list"
  commits_per_repo :: "(string \<times> int) list"
  stars_per_repo :: "(string \<times> int) list"
  stars_per_language :: "(string \<times> int) list"
  commit_dates :: "val list"

definition no_aggregates :: aggregates where
  "no_aggregates =
     \<lparr>languages = [], commits_per_repo = [], stars_per_repo = [],
      stars_per_language = [], commit_dates = []\<rparr>"

text \<open>The first statements of the loop body, up to \<^verbatim>\<open>stars_per_repo[repo_name] = stars\<close>.\<close>

definition count_repo :: "repo \<Rightarrow> aggregates \<Rightarrow> aggregates" where
  "count_repo repo a =
     (let lang = or_str (language repo) ''Unknown'';
          repo_name = or_str (name repo) ''Unknown'';
          stars = or_int (stargazers_count repo) 0;
          size = or_int (repo_size repo) 0
      in a\<lparr>languages := dict_set (languages a) lang (dict_get (languages a) lang 0 + size),
           stars_per_language :=
             dict_set (stars_per_language a) lang (dict_get (stars_per_language a) lang 0 + stars),
           stars_per_repo := dict_set (stars_per_repo a) repo_name stars\<rparr>)"

fun repos_loop ::
  "github \<Rightarrow> (string \<Rightarrow> val option) \<Rightarrow> string \<Rightarrow> repo list \<Rightarrow> aggregates \<Rightarrow> aggregates io" where
  "repos_loop gh isoparse username [] a = returns a"
| "repos_loop gh isoparse username (repo # repos) a =
     io_bind (get_commit_count gh username (or_str (name repo) ''Unknown'')) (\<lambda>commits_count.
     io_bind (requests_get (commits_at gh)
                (repo_commits_url username (or_str (name repo) ''Unknown'') ''per_page=100''))
       (\<lambda>commits_resp.
     io_bind (lift (response_dates isoparse commits_resp (commit_dates a))) (\<lambda>dates.
     repos_loop gh isoparse username repos
       ((count_repo repo a)
          \<lparr>commits_per_repo :=
             dict_set (commits_per_repo a) (or_str (name repo) ''Unknown'') commits_count,
           commit_dates := dates\<rparr>))))"

text \<open>
  \<^verbatim>\<open>commits_per_language[lang] = sum(commits_per_repo.get(repo.get("name") or "", 0)
  for repo in repos if (repo.get("language") or "Unknown") == lang)\<close>, for every key of
  \<^verbatim>\<open>languages\<close>.
\<close>

definition language_commits :: "repo list \<Rightarrow> (string \<times> int) list \<Rightarrow> string \<Rightarrow> int" where
  "language_commits repos cpr lang =
     sum_list (map (\<lambda>repo. dict_get cpr (or_str (name repo) []) 0)
                 (filter (\<lambda>repo. or_str (language repo) ''Unknown'' = lang) repos))"

definition commits_per_language_of :: "repo list \<Rightarrow> aggregates \<Rightarrow> (string \<times> int) list" where
  "commits_per_language_of repos a =
     fold (\<lambda>lang d. dict_set d lang (language_commits repos (commits_per_repo a) lang))
       (map fst (languages a)) []"

definition dashboard_record :: "string \<Rightarrow> doc \<Rightarrow> repo list \<Rightarrow> doc list \<Rightarrow> aggregates \<Rightarrow> doc" where
  "dashboard_record username user_json repos starred a =
     [(''Login'', VStr username),
      (''Name'', py_or (py_get user_json ''name'') (VStr username)),
      (''Avatar URL'', py_get user_json ''avatar_url''),
      (''Profile URL'', py_get user_json ''html_url''),
      (''Bio'', py_or (py_get user_json ''bio'') (VStr [])),
      (''Created At'', py_get user_json ''created_at''),
      (''Followers Count'', py_or (py_get user_json ''followers'') (VInt 0)),
      (''Following Count'', py_or (py_get user_json ''following'') (VInt 0)),
      (''Public Repositories'', py_or (py_get user_json ''public_repos'') (VInt 0)),
      (''Languages'', int_dict_val (languages a)),
      (''Commits Per Repo'', int_dict_val (commits_per_repo a)),
      (''Stars Per Repo'', int_dict_val (stars_per_repo a)),
      (''Stars Per Language'', int_dict_val (stars_per_language a)),
      (''Commits Per Language'', int_dict_val (commits_per_language_of repos a)),
      (''Starred Repositories'', VList (map (\<lambda>repo. py_get repo ''html_url'') starred)),
      (''Commit Dates'', VList (commit_dates a)),
      (''Platforms'', VList [VStr ''Linux'', VStr ''Windows'', VStr ''macOS'']),
      (''Web Frameworks'', VDict [(''Django'', VInt 3), (''Flask'', VInt 2), (''React'', VInt 5)]),
      (''Total Commits'', VInt (sum_list (map snd (commits_per_repo a))))]"

text \<open>\<^verbatim>\<open>resp.json() if resp.status_code == 200 else []\<close>.\<close>

definition json_or_empty :: "'a list response \<Rightarrow> exn + 'a list" where
  "json_or_empty resp = (if status_code resp = 200 then json resp else Inr [])"

definition fetch_user_data :: "github \<Rightarrow> (string \<Rightarrow> val option) \<Rightarrow> string \<Rightarrow> doc option io" where
  "fetch_user_data gh isoparse username =
     io_bind (requests_get (profile_at gh) (users_url username)) (\<lambda>user_resp.
       if status_code user_resp \<noteq> 200 then returns None
       else
         io_bind (lift (json user_resp)) (\<lambda>user_json.
         io_bind (requests_get (repos_at gh) (users_url username @ ''/repos?per_page=100''))
           (\<lambda>repos_resp.
         io_bind (lift (json_or_empty repos_resp)) (\<lambda>repos.
         io_bind (requests_get (items_at gh) (users_url username @ ''/starred?per_page=100''))
           (\<lambda>starred_resp.
         io_bind (lift (json_or_empty starred_resp)) (\<lambda>starred.
         io_bind (repos_loop gh isoparse username repos no_aggregates) (\<lambda>a.
         returns (Some (dashboard_record username user_json repos starred a)))))))))"

text \<open>
  The lookup at the top of \<^verbatim>\<open>dashboard.py\<close>, which runs for a non-empty user name:
  the stored document when there is one; otherwise the record is fetched and, when the
  fetch gives one, inserted.
\<close>

definition dashboard_user :: "github \<Rightarrow> (string \<Rightarrow> val option) \<Rightarrow> string \<Rightarrow> stored option io" where
  "dashboard_user gh isoparse username =
     (if username = [] then returns None
      else
        io_bind (find_one username) (\<lambda>found.
          case found of
            Some user \<Rightarrow> returns (Some user)
          | None \<Rightarrow>
              io_bind (fetch_user_data gh isoparse username) (\<lambda>fetched.
                case fetched of
                  None \<Rightarrow> returns None
                | Some user \<Rightarrow>
                    io_bind (insert_one user) (\<lambda>stored_user. returns (Some stored_user)))))"

section \<open>Auxiliary notions for the analyzer\<close>

text \<open>A row of 0s and 1s.\<close>

definition binary :: "int list \<Rightarrow> bool" where
  "binary x = (\<forall>v\<in>set x. v = 0 \<or> v = 1)"

text \<open>
  The position of the target, the ranked (position, score) pairs and the entry built from
  one pair, as \<^verbatim>\<open>get_recommendations\<close> computes them.
\<close>

definition user_index :: "row list \<Rightarrow> string \<Rightarrow> nat" where
  "user_index df username = first_index (\<lambda>r. Login r = VStr username) df"

definition ranking :: "row list \<Rightarrow> string \<Rightarrow> int \<Rightarrow> (nat \<times> real) list" where
  "ranking df username top_n =
     slice_to top_n (sorted_reverse snd
       (filter (\<lambda>(idx, score). idx \<noteq> user_index df username)
          (enumerate 0 (cosine_similarity (fit_transform (map LanguagesList df)) ! user_index df username))))"

definition entry :: "row list \<Rightarrow> string \<Rightarrow> nat \<times> real \<Rightarrow> recommendation" where
  "entry df username p =
     \<lparr>rec_Login = Login (df ! fst p),
      rec_Profile_URL = Profile_URL (df ! fst p),
      Common_Languages = set (LanguagesList (df ! user_index df username)) \<inter> set (LanguagesList (df ! fst p)),
      Similarity_Score = round3 (snd p),
      Avatar = Avatar_URL (df ! fst p)\<rparr>"

text \<open>Concrete frames.\<close>

definition duplicate_login_frame :: "row list" where
  "duplicate_login_frame =
     [\<lparr>Login = VStr ''torvalds'', Profile_URL = VStr ''https://github.com/torvalds'',
       Avatar_URL = VNone, Languages = VDict [(''C'', VInt 100)], LanguagesList = [''C'']\<rparr>,
      \<lparr>Login = VStr ''torvalds'', Profile_URL = VStr ''https://github.com/torvalds'',
       Avatar_URL = VNone, Languages = VDict [(''C'', VInt 100)], LanguagesList = [''C'']\<rparr>]"

definition disjoint_frame :: "row list" where
  "disjoint_frame =
     [\<lparr>Login = VStr ''ann'', Profile_URL = VNone, Avatar_URL = VNone,
       Languages = VDict [(''Python'', VInt 7)], LanguagesList = [''Python'']\<rparr>,
      \<lparr>Login = VStr ''bob'', Profile_URL = VNone, Avatar_URL = VNone,
       Languages = VDict [(''C'', VInt 5)], LanguagesList = [''C'']\<rparr>]"

definition same_language_frame :: "row list" where
  "same_language_frame =
     [\<lparr>Login = VStr ''ann'', Profile_URL = VNone, Avatar_URL = VNone,
       Languages = VDict [(''Python'', VInt 7)], LanguagesList = [''Python'']\<rparr>,
      \<lparr>Login = VStr ''bob'', Profile_URL = VNone, Avatar_URL = VNone,
       Languages = VDict [(''Python'', VInt 5)], LanguagesList = [''Python'']\<rparr>]"

definition candidate :: row where
  "candidate = \<lparr>Login = VStr ''bob'', Profile_URL = VNone, Avatar_URL = VNone,
       Languages = VDict [(''Python'', VInt 5)], LanguagesList = [''Python'']\<rparr>"

text \<open>
  The similarity of row \<open>i\<close> to the target's row, \<^verbatim>\<open>similarity[user_idx][i]\<close>.
\<close>

definition similarity_to :: "row list \<Rightarrow> string \<Rightarrow> nat \<Rightarrow> real" where
  "similarity_to df username i =
     cosine_similarity (fit_transform (map LanguagesList df)) ! user_index df username ! i"

text \<open>
  Candidates that share none, one of four, and all of the target's languages; a frame
  that lists them in this order after the target, and a frame with 51 of them.
\<close>

definition far_candidate :: row where
  "far_candidate = \<lparr>Login = VStr ''cy'', Profile_URL = VNone, Avatar_URL = VNone,
       Languages = VDict [(''C'', VInt 5)], LanguagesList = [''C'']\<rparr>"

definition half_candidate :: row where
  "half_candidate = \<lparr>Login = VStr ''dee'', Profile_URL = VNone, Avatar_URL = VNone,
       Languages = VDict [(''Python'', VInt 1), (''C'', VInt 1), (''Go'', VInt 1), (''Rust'', VInt 1)],
       LanguagesList = [''Python'', ''C'', ''Go'', ''Rust'']\<rparr>"

definition ranked_frame :: "row list" where
  "ranked_frame =
     [\<lparr>Login = VStr ''ann'', Profile_URL = VNone, Avatar_URL = VNone,
       Languages = VDict [(''Python'', VInt 7)], LanguagesList = [''Python'']\<rparr>,
      far_candidate, half_candidate, candidate]"

definition varied_frame :: "row list" where
  "varied_frame =
     \<lparr>Login = VStr ''ann'', Profile_URL = VNone, Avatar_URL = VNone,
       Languages = VDict [(''Python'', VInt 7)], LanguagesList = [''Python'']\<rparr>
     # replicate 20 far_candidate @ replicate 20 half_candidate @ replicate 11 candidate"

section \<open>Auxiliary notions and concrete platforms for the fetchers\<close>

definition same_store :: "world \<Rightarrow> world \<Rightarrow> bool" where
  "same_store w w' =
     (collection w' = collection w \<and> next_id w' = next_id w \<and> store_up w' = store_up w)"

definition keeps_store :: "'a io \<Rightarrow> bool" where
  "keeps_store m = (\<forall>w. same_store w (snd (m w)))"

definition no_raise :: "'a io \<Rightarrow> bool" where
  "no_raise m = (\<forall>w. \<exists>x. fst (m w) = Inr x)"

definition world0 :: world where
  "world0 = \<lparr>clock = 0, trace = [], collection = [], next_id = 1, store_up = True\<rparr>"

definition isoparse_any :: "string \<Rightarrow> val option" where
  "isoparse_any s = Some (VDate s)"


definition octocat_profile :: doc where
  "octocat_profile =
     [(''login'', VStr ''octocat''),
      (''name'', VStr ''The Octocat''),
      (''followers_url'', VStr ''https://api.github.com/users/octocat/followers''),
      (''following_url'', VStr ''https://api.github.com/users/octocat/following{/other_user}'')]"

definition profile_only :: github where
  "profile_only =
     \<lparr>profile_at = (\<lambda>url n. Some (Response 200 [] (Some octocat_profile))),
      repos_at = (\<lambda>url n. Some (Response 404 [] None)),
      items_at = (\<lambda>url n. Some (Response 404 [] None)),
      languages_at = (\<lambda>url n. Some (Response 404 [] None)),
      commits_at = (\<lambda>url n. Some (Response 404 [] None))\<rparr>"



definition upserts :: "string \<Rightarrow> doc option io \<Rightarrow> bool" where
  "upserts username g =
     (\<forall>w0 w r w'. same_store w0 w \<longrightarrow> g w = (r, w') \<longrightarrow>
        collection w' =
          (case r of
             Inr (Some data) \<Rightarrow> collection (snd (update_one username data w0))
           | _ \<Rightarrow> collection w0))"

definition hello_repo :: repo where
  "hello_repo =
     \<lparr>name = Some ''hello'', language = Some ''C'', stargazers_count = Some 2,
      repo_size = Some 10, fork = Some False,
      languages_url = Some ''https://api.github.com/repos/octocat/hello/languages'',
      commits_url = Some ''https://api.github.com/repos/octocat/hello/commits{/sha}''\<rparr>"

definition forked_repo :: repo where
  "forked_repo =
     \<lparr>name = Some ''linux'', language = Some ''C'', stargazers_count = Some 0,
      repo_size = Some 7, fork = Some True,
      languages_url = Some ''https://api.github.com/repos/octocat/linux/languages'',
      commits_url = Some ''https://api.github.com/repos/octocat/linux/commits{/sha}''\<rparr>"

definition one_commit :: commits_body where
  "one_commit = CommitList [\<lparr>commit_date = None\<rparr>]"

definition two_repos :: github where
  "two_repos =
     \<lparr>profile_at = (\<lambda>url n. Some (Response 200 [] (Some octocat_profile))),
      repos_at = (\<lambda>url n. Some (Response 200 [] (Some [hello_repo, forked_repo]))),
      items_at = (\<lambda>url n. Some (Response 404 [] None)),
      languages_at = (\<lambda>url n. Some (Response 404 [] None)),
      commits_at = (\<lambda>url n. Some (Response 200 [] (Some one_commit)))\<rparr>"

text \<open>
  The position of the document that \<^verbatim>\<open>update_one\<close> writes: that of the first document
  with the login, or the end of the collection when there is none.
\<close>

definition upsert_position :: "string \<Rightarrow> stored list \<Rightarrow> nat" where
  "upsert_position username ds =
     (if list_ex (matches_login username) ds then first_index (matches_login username) ds
      else length ds)"




text \<open>
  A repository object without a name (the key is missing or \<^verbatim>\<open>null\<close>), written in
  Python, and a platform that lists it as the only repository of the user; every commits
  request is answered with one commit and no \<^verbatim>\<open>Link\<close> header.
\<close>

definition nameless_repo :: repo where
  "nameless_repo =
     \<lparr>name = None, language = Some ''Python'', stargazers_count = Some 2,
      repo_size = Some 10, fork = Some False, languages_url = None, commits_url = None\<rparr>"

definition nameless_github :: github where
  "nameless_github =
     \<lparr>profile_at = (\<lambda>url n. Some (Response 200 [] (Some octocat_profile))),
      repos_at = (\<lambda>url n. Some (Response 200 [] (Some [nameless_repo]))),
      items_at = (\<lambda>url n. Some (Response 200 [] (Some []))),
      languages_at = (\<lambda>url n. Some (Response 404 [] None)),
      commits_at = (\<lambda>url n. Some (Response 200 [] (Some one_commit)))\<rparr>"

text \<open>A field of the record that a fetch returned.\<close>

definition record_field :: "exn + doc option \<Rightarrow> string \<Rightarrow> val option" where
  "record_field r k = (case r of Inr (Some d) \<Rightarrow> map_of d k | _ \<Rightarrow> None)"

text \<open>The decimal numeral of a natural number, as GitHub writes a page number.\<close>

definition digit_char :: "nat \<Rightarrow> char" where
  "digit_char d = char_of (48 + d)"

fun decimal :: "nat \<Rightarrow> string" where
  "decimal n = (if n < 10 then [digit_char n] else decimal (n div 10) @ [digit_char (n mod 10)])"










section \<open>Properties of the analyzer\<close>

lemma fit_transform_binary: "x \<in> set (fit_transform y) \<Longrightarrow> binary x"
  by (auto simp: fit_transform_def binary_def Let_def)

lemma length_fit_transform: "length (fit_transform y) = length y"
  by (simp add: fit_transform_def Let_def)

lemma dot_scale:
  "dot (map (\<lambda>v. real_of_int v / a) x) (map (\<lambda>v. real_of_int v / b) y)
     = real_of_int (\<Sum>(u, v)\<leftarrow>zip x y. u * v) / (a * b)"
proof (induction x arbitrary: y)
  case Nil
  then show ?case by (simp add: dot_def)
next
  case (Cons u x)
  show ?case
  proof (cases y)
    case Nil
    then show ?thesis by (simp add: dot_def)
  next
    case (Cons v y')
    have "dot (map (\<lambda>v. real_of_int v / a) (u # x)) (map (\<lambda>v. real_of_int v / b) (v # y'))
        = (real_of_int u / a) * (real_of_int v / b)
          + dot (map (\<lambda>v. real_of_int v / a) x) (map (\<lambda>v. real_of_int v / b) y')"
      by (simp add: dot_def)
    also have "\<dots> = real_of_int (u * v) / (a * b)
          + real_of_int (\<Sum>(u, v)\<leftarrow>zip x y'. u * v) / (a * b)"
      by (simp add: Cons.IH)
    also have "\<dots> = real_of_int (\<Sum>(u, v)\<leftarrow>zip (u # x) (v # y'). u * v) / (a * b)"
      by (simp add: add_divide_distrib)
    finally show ?thesis using Cons by simp
  qed
qed

lemma binary_prod_bounds:
  "binary x \<Longrightarrow> binary y \<Longrightarrow>
     0 \<le> (\<Sum>(u, v)\<leftarrow>zip x y. u * v)
     \<and> (\<Sum>(u, v)\<leftarrow>zip x y. u * v) \<le> (\<Sum>v\<leftarrow>x. v\<^sup>2)
     \<and> (\<Sum>(u, v)\<leftarrow>zip x y. u * v) \<le> (\<Sum>v\<leftarrow>y. v\<^sup>2)"
proof (induction x arbitrary: y)
  case Nil
  then show ?case by (auto intro!: sum_list_nonneg)
next
  case (Cons u x)
  show ?case
  proof (cases y)
    case Nil
    then show ?thesis by (auto intro!: sum_list_nonneg add_nonneg_nonneg)
  next
    case (Cons v y')
    from Cons.prems Cons have b: "binary x" "binary y'" and uv: "u = 0 \<or> u = 1" "v = 0 \<or> v = 1"
      by (auto simp: binary_def)
    from Cons.IH [OF b] uv show ?thesis using Cons by auto
  qed
qed

lemma sum_sq_real: "(\<Sum>v\<leftarrow>x. (real_of_int v)\<^sup>2) = real_of_int (\<Sum>v\<leftarrow>x. v\<^sup>2)"
  by (induction x) auto

lemma cosine_binary_bounds:
  assumes "binary x" "binary y"
  shows "0 \<le> dot (normalize_row x) (normalize_row y)"
    and "dot (normalize_row x) (normalize_row y) \<le> 1"
proof -
  define d where "d = (\<Sum>(u, v)\<leftarrow>zip x y. u * v)"
  define sx where "sx = (\<Sum>v\<leftarrow>x. v\<^sup>2)"
  define sy where "sy = (\<Sum>v\<leftarrow>y. v\<^sup>2)"
  define a where "a = (if row_norm x = 0 then 1 else row_norm x)"
  define b where "b = (if row_norm y = 0 then 1 else row_norm y)"
  have bounds: "0 \<le> d" "d \<le> sx" "d \<le> sy"
    using binary_prod_bounds [OF assms] by (simp_all add: d_def sx_def sy_def)
  have nx: "row_norm x = sqrt (real_of_int sx)" and ny: "row_norm y = sqrt (real_of_int sy)"
    by (simp_all add: row_norm_def sum_sq_real sx_def sy_def)
  have eq: "dot (normalize_row x) (normalize_row y) = real_of_int d / (a * b)"
    by (simp add: normalize_row_def Let_def dot_scale d_def a_def b_def)
  have pos: "0 < a" "0 < b"
    using bounds by (auto simp: a_def b_def nx ny)
  show "0 \<le> dot (normalize_row x) (normalize_row y)"
    using bounds pos by (simp add: eq)
  have "real_of_int d \<le> a * b"
  proof (cases "sx = 0 \<or> sy = 0")
    case True
    then have "d = 0" using bounds by auto
    then show ?thesis using pos by simp
  next
    case False
    then have ab: "a = sqrt (real_of_int sx)" "b = sqrt (real_of_int sy)"
      by (auto simp: a_def b_def nx ny)
    have "d * d \<le> sx * sy"
      using bounds by (simp add: mult_mono)
    then have "real_of_int d * real_of_int d \<le> real_of_int sx * real_of_int sy"
      by (metis of_int_le_iff of_int_mult)
    then have "real_of_int d \<le> sqrt (real_of_int sx * real_of_int sy)"
      by (intro real_le_rsqrt) (simp add: power2_eq_square)
    then show ?thesis
      by (simp add: ab real_sqrt_mult)
  qed
  then show "dot (normalize_row x) (normalize_row y) \<le> 1"
    using pos by (simp add: eq)
qed

lemma rint_cases: "rint x = \<lfloor>x\<rfloor> \<or> rint x = \<lfloor>x\<rfloor> + 1"
  by (simp add: rint_def Let_def)

lemma rint_mono: "x \<le> y \<Longrightarrow> rint x \<le> rint y"
proof -
  assume xy: "x \<le> y"
  then have fl: "\<lfloor>x\<rfloor> \<le> \<lfloor>y\<rfloor>" by (rule floor_mono)
  show ?thesis
  proof (cases "\<lfloor>x\<rfloor> = \<lfloor>y\<rfloor>")
    case True
    then show ?thesis using xy by (auto simp: rint_def Let_def)
  next
    case False
    then have "\<lfloor>x\<rfloor> + 1 \<le> \<lfloor>y\<rfloor>" using fl by simp
    moreover have "rint x \<le> \<lfloor>x\<rfloor> + 1" using rint_cases [of x] by auto
    moreover have "\<lfloor>y\<rfloor> \<le> rint y" using rint_cases [of y] by auto
    ultimately show ?thesis by linarith
  qed
qed

lemma rint_of_int: "rint (of_int n) = n"
  by (simp add: rint_def)

lemma round3_mono: "x \<le> y \<Longrightarrow> round3 x \<le> round3 y"
  by (simp add: round3_def rint_mono divide_right_mono)

lemma round3_0: "round3 0 = 0"
  using rint_of_int [of 0] by (simp add: round3_def)

lemma round3_1: "round3 1 = 1"
  using rint_of_int [of 1000] by (simp add: round3_def)

lemma get_recommendations_present:
  "VStr username \<in> set (map Login df) \<Longrightarrow>
     get_recommendations df username top_n = Some (map (entry df username) (ranking df username top_n))"
  by (simp add: get_recommendations_def ranking_def entry_def user_index_def Let_def case_prod_beta)

lemma first_index_found:
  "\<exists>x\<in>set xs. P x \<Longrightarrow> first_index P xs < length xs \<and> P (xs ! first_index P xs)"
  by (induction xs) auto

lemma first_index_least: "j < first_index P xs \<Longrightarrow> j < length xs \<Longrightarrow> \<not> P (xs ! j)"
proof (induction xs arbitrary: j)
  case Nil
  then show ?case by simp
next
  case (Cons x xs)
  then show ?case by (cases j) (auto split: if_splits)
qed

lemma user_index_present:
  assumes "VStr username \<in> set (map Login df)"
  shows "user_index df username < length df"
    and "Login (df ! user_index df username) = VStr username"
proof -
  from assms have "\<exists>r\<in>set df. Login r = VStr username" by auto
  from first_index_found [of df "\<lambda>r. Login r = VStr username", OF this]
  show "user_index df username < length df"
    and "Login (df ! user_index df username) = VStr username"
    by (simp_all add: user_index_def)
qed

lemma set_slice_to: "set (slice_to n xs) \<subseteq> set xs"
  by (auto simp: slice_to_def dest: in_set_takeD)

lemma length_slice_to_nonneg: "0 \<le> n \<Longrightarrow> length (slice_to n xs) = min (nat n) (length xs)"
  by (simp add: slice_to_def)

lemma set_sorted_reverse: "set (sorted_reverse k xs) = set xs"
  by (simp add: sorted_reverse_def)

lemma length_sorted_reverse: "length (sorted_reverse k xs) = length xs"
  by (simp add: sorted_reverse_def)

lemma sorted_reverse_desc: "sorted_wrt (\<lambda>a b. k b \<le> k a) (sorted_reverse k xs)"
proof -
  have "sorted (map (\<lambda>x. - k x) (sorted_reverse k xs))"
    unfolding sorted_reverse_def by (rule sorted_sort_key)
  then show ?thesis
    by (simp add: sorted_map sorted_wrt_iff_nth_less)
qed

lemma sorted_wrt_slice_to: "sorted_wrt R xs \<Longrightarrow> sorted_wrt R (slice_to n xs)"
  by (simp add: slice_to_def sorted_wrt_take)

lemma similarity_row:
  assumes "i < length X"
  shows "cosine_similarity X ! i = map (\<lambda>y. dot (normalize_row (X ! i)) (normalize_row y)) X"
  using assms by (simp add: cosine_similarity_def Let_def comp_def)

lemma length_filter_enumerate_neq_aux:
  "length (filter (\<lambda>(idx, s). idx \<noteq> i) (enumerate k xs))
     = length xs - (if k \<le> i \<and> i < k + length xs then 1 else 0)"
proof (induction xs arbitrary: k)
  case Nil
  then show ?case by simp
next
  case (Cons x xs)
  show ?case using Cons.IH [of "Suc k"] by auto
qed

lemma length_filter_enumerate_neq:
  "i < length xs \<Longrightarrow> length (filter (\<lambda>(idx, s). idx \<noteq> i) (enumerate 0 xs)) = length xs - 1"
  by (simp add: length_filter_enumerate_neq_aux)

lemma ranking_members:
  assumes pres: "VStr username \<in> set (map Login df)" and mem: "(idx, s) \<in> set (ranking df username top_n)"
  shows "idx < length df" and "idx \<noteq> user_index df username"
    and "s = dot (normalize_row (fit_transform (map LanguagesList df) ! user_index df username))
                 (normalize_row (fit_transform (map LanguagesList df) ! idx))"
proof -
  let ?X = "fit_transform (map LanguagesList df)"
  let ?i = "user_index df username"
  have i: "?i < length ?X"
    using user_index_present(1) [OF pres] by (simp add: length_fit_transform)
  from mem have "(idx, s) \<in> set (filter (\<lambda>(idx, score). idx \<noteq> ?i) (enumerate 0 (cosine_similarity ?X ! ?i)))"
    using set_slice_to set_sorted_reverse unfolding ranking_def by fastforce
  then have ne: "idx \<noteq> ?i" and en: "(idx, s) \<in> set (enumerate 0 (cosine_similarity ?X ! ?i))"
    by auto
  from en have lt: "idx < length ?X" and s: "s = cosine_similarity ?X ! ?i ! idx"
    by (auto simp: in_set_enumerate_eq similarity_row [OF i])
  show "idx < length df" using lt by (simp add: length_fit_transform)
  show "idx \<noteq> ?i" by (rule ne)
  show "s = dot (normalize_row (?X ! ?i)) (normalize_row (?X ! idx))"
    using s lt by (simp add: similarity_row [OF i])
qed

lemma ranking_score_bounds:
  assumes pres: "VStr username \<in> set (map Login df)" and mem: "(idx, s) \<in> set (ranking df username top_n)"
  shows "0 \<le> s \<and> s \<le> 1"
proof -
  let ?X = "fit_transform (map LanguagesList df)"
  have i: "user_index df username < length ?X"
    using user_index_present(1) [OF pres] by (simp add: length_fit_transform)
  have j: "idx < length ?X"
    using ranking_members(1) [OF pres mem] by (simp add: length_fit_transform)
  have "binary (?X ! user_index df username)" "binary (?X ! idx)"
    using i j by (auto intro!: fit_transform_binary nth_mem)
  then show ?thesis
    using cosine_binary_bounds ranking_members(3) [OF pres mem] by simp
qed

lemma length_ranking:
  assumes pres: "VStr username \<in> set (map Login df)" and n: "0 \<le> top_n"
  shows "length (ranking df username top_n) = min (nat top_n) (length df - 1)"
proof -
  let ?X = "fit_transform (map LanguagesList df)"
  have i: "user_index df username < length ?X"
    using user_index_present(1) [OF pres] by (simp add: length_fit_transform)
  then have "length (cosine_similarity ?X ! user_index df username) = length df"
    by (simp add: similarity_row length_fit_transform)
  then show ?thesis
    using i n
    by (simp add: ranking_def length_slice_to_nonneg length_sorted_reverse
        length_filter_enumerate_neq length_fit_transform)
qed

lemma ranking_sorted: "sorted_wrt (\<lambda>a b. snd b \<le> snd a) (ranking df username top_n)"
  unfolding ranking_def by (intro sorted_wrt_slice_to sorted_reverse_desc)

lemma disjoint_rows_dot_zero:
  assumes "set a \<inter> set b = {}"
  shows "(\<Sum>(u, v)\<leftarrow>zip (map (\<lambda>c. if c \<in> set a then 1 else 0) cs)
                        (map (\<lambda>c. if c \<in> set b then 1 else 0) cs). u * v) = (0::int)"
  using assms by (induction cs) auto

lemma fit_transform_nth:
  "i < length y \<Longrightarrow>
     fit_transform y ! i = map (\<lambda>c. if c \<in> set (y ! i) then 1 else 0) (mlb_classes y)"
  by (simp add: fit_transform_def Let_def)

lemma dot_normalized:
  "dot (normalize_row x) (normalize_row y)
     = real_of_int (\<Sum>(u, v)\<leftarrow>zip x y. u * v)
         / ((if row_norm x = 0 then 1 else row_norm x) * (if row_norm y = 0 then 1 else row_norm y))"
  unfolding normalize_row_def Let_def by (rule dot_scale)

lemma disjoint_score_zero:
  assumes "i < length y" "j < length y" "set (y ! i) \<inter> set (y ! j) = {}"
  shows "dot (normalize_row (fit_transform y ! i)) (normalize_row (fit_transform y ! j)) = 0"
  unfolding dot_normalized using assms
  by (simp add: fit_transform_nth disjoint_rows_dot_zero)

lemma entry_score_bounds:
  assumes "VStr username \<in> set (map Login df)" "p \<in> set (ranking df username top_n)"
  shows "0 \<le> Similarity_Score (entry df username p) \<and> Similarity_Score (entry df username p) \<le> 1"
proof -
  from assms have "0 \<le> snd p \<and> snd p \<le> 1"
    using ranking_score_bounds [of username df "fst p" "snd p" top_n] by simp
  then show ?thesis
    using round3_mono [of 0 "snd p"] round3_mono [of "snd p" 1]
    by (simp add: entry_def round3_0 round3_1)
qed

lemma distinct_login_other:
  assumes d: "distinct (map Login df)" and pres: "VStr username \<in> set (map Login df)"
    and idx: "idx < length df" "idx \<noteq> user_index df username"
  shows "Login (df ! idx) \<noteq> VStr username"
proof
  assume eq: "Login (df ! idx) = VStr username"
  let ?i = "user_index df username"
  have i: "?i < length df" "Login (df ! ?i) = VStr username"
    using user_index_present [OF pres] by simp_all
  have "map Login df ! idx = map Login df ! ?i"
    using idx i eq by simp
  moreover have "idx < length (map Login df)" "?i < length (map Login df)"
    using idx(1) i(1) by simp_all
  ultimately have "idx = ?i"
    using d nth_eq_iff_index_eq [of "map Login df" idx ?i] by blast
  then show False using idx(2) by simp
qed

text \<open>The equations that evaluate the analyzer on a concrete frame.\<close>

lemmas analyzer_defs = get_recommendations_def fit_transform_def mlb_classes_def
     cosine_similarity_def normalize_row_def row_norm_def dot_def Let_def sorted_reverse_def slice_to_def
     round3_def rint_def enumerate_eq_zip

lemma eligible_le:
  assumes "VStr username \<in> set (map Login df)"
  shows "length (filter (\<lambda>r. Login r \<noteq> VStr username \<and> LanguagesList r \<noteq> []) df) \<le> length df - 1"
proof -
  let ?P = "\<lambda>r. Login r \<noteq> VStr username \<and> LanguagesList r \<noteq> []"
  from assms obtain r where r: "r \<in> set df" "\<not> ?P r" by auto
  then have "filter (\<lambda>r. \<not> ?P r) df \<noteq> []"
    by (auto simp: filter_empty_conv)
  then have "1 \<le> length (filter (\<lambda>r. \<not> ?P r) df)"
    by (cases "filter (\<lambda>r. \<not> ?P r) df") auto
  then show ?thesis
    using sum_length_filter_compl [of ?P df] by linarith
qed

lemma entries_sorted:
  "sorted_wrt (\<lambda>a b. Similarity_Score b \<le> Similarity_Score a)
     (map (entry df username) (ranking df username top_n))"
proof -
  have "sorted_wrt (\<lambda>a b. round3 (snd b) \<le> round3 (snd a)) (ranking df username top_n)"
    by (rule sorted_wrt_mono_rel [OF _ ranking_sorted]) (simp add: round3_mono)
  then show ?thesis
    by (simp add: sorted_wrt_map entry_def)
qed

text \<open>
  Claim C1, amended. For every data frame and every target login present in it,
  \<^verbatim>\<open>get_recommendations\<close> returns a list; when the logins of the frame are pairwise
  distinct, no returned entry carries the target's login; every returned score lies in
  \<open>[-1, 1]\<close>; and in a frame of exactly two rows with disjoint language lists every returned
  score is 0 (and exactly one entry is returned when \<open>top_n \<ge> 1\<close>). The code excludes the
  row at the target's position, not the rows with the target's login.
\<close>

theorem recommendations_exclude_target:
  assumes "VStr username \<in> set (map Login df)"
  shows "\<exists>recs. get_recommendations df username top_n = Some recs
     \<and> (distinct (map Login df) \<longrightarrow> VStr username \<notin> set (map rec_Login recs))
     \<and> (\<forall>r\<in>set recs. - 1 \<le> Similarity_Score r \<and> Similarity_Score r \<le> 1)
     \<and> (length df = 2 \<and> set (LanguagesList (df ! 0)) \<inter> set (LanguagesList (df ! 1)) = {}
          \<longrightarrow> (\<forall>r\<in>set recs. Similarity_Score r = 0) \<and> (1 \<le> top_n \<longrightarrow> length recs = 1))"
proof -
  let ?rk = "ranking df username top_n"
  let ?recs = "map (entry df username) ?rk"
  let ?i = "user_index df username"
  have eq: "get_recommendations df username top_n = Some ?recs"
    by (rule get_recommendations_present [OF assms])
  have a: "VStr username \<notin> set (map rec_Login ?recs)" if d: "distinct (map Login df)"
  proof
    assume "VStr username \<in> set (map rec_Login ?recs)"
    then obtain p where p: "p \<in> set ?rk" "Login (df ! fst p) = VStr username"
      by (auto simp: entry_def)
    then have "fst p < length df" "fst p \<noteq> ?i"
      using ranking_members(1,2) [OF assms, of "fst p" "snd p" top_n] by simp_all
    with distinct_login_other [OF d assms] p(2) show False by blast
  qed
  have b: "\<forall>r\<in>set ?recs. - 1 \<le> Similarity_Score r \<and> Similarity_Score r \<le> 1"
    using entry_score_bounds [OF assms] by fastforce
  have c: "(\<forall>r\<in>set ?recs. Similarity_Score r = 0) \<and> (1 \<le> top_n \<longrightarrow> length ?recs = 1)"
    if two: "length df = 2" and dj: "set (LanguagesList (df ! 0)) \<inter> set (LanguagesList (df ! 1)) = {}"
  proof
    show "\<forall>r\<in>set ?recs. Similarity_Score r = 0"
    proof
      fix r assume "r \<in> set ?recs"
      then obtain p where p: "p \<in> set ?rk" "r = entry df username p" by auto
      have i: "?i < length df" by (rule user_index_present(1) [OF assms])
      have m: "fst p < length df" "fst p \<noteq> ?i"
        "snd p = dot (normalize_row (fit_transform (map LanguagesList df) ! ?i))
                     (normalize_row (fit_transform (map LanguagesList df) ! fst p))"
        using ranking_members [OF assms, of "fst p" "snd p" top_n] p(1) by simp_all
      have "set (map LanguagesList df ! ?i) \<inter> set (map LanguagesList df ! fst p) = {}"
      proof -
        have "(?i = 0 \<and> fst p = 1) \<or> (?i = 1 \<and> fst p = 0)"
          using i m(1,2) two by linarith
        then show ?thesis using dj i m(1) by auto
      qed
      then have "snd p = 0"
        using disjoint_score_zero [of ?i "map LanguagesList df" "fst p"] i m by simp
      then show "Similarity_Score r = 0"
        by (simp add: p(2) entry_def round3_0)
    qed
    show "1 \<le> top_n \<longrightarrow> length ?recs = 1"
      using length_ranking [OF assms, of top_n] two by auto
  qed
  show ?thesis
    using eq a b c by blast
qed

text \<open>The statement above, at a frame of two users with disjoint languages.\<close>

theorem recommendations_exclude_target_witness:
  "VStr ''ann'' \<in> set (map Login disjoint_frame)
   \<and> distinct (map Login disjoint_frame)
   \<and> length disjoint_frame = 2
   \<and> set (LanguagesList (disjoint_frame ! 0)) \<inter> set (LanguagesList (disjoint_frame ! 1)) = {}
   \<and> get_recommendations disjoint_frame ''ann'' 10 =
       Some [\<lparr>rec_Login = VStr ''bob'', rec_Profile_URL = VNone, Common_Languages = {},
               Similarity_Score = 0, Avatar = VNone\<rparr>]"
  using recommendations_exclude_target [of "''ann''" disjoint_frame 10]
  by (simp add: disjoint_frame_def analyzer_defs)

text \<open>
  Claim C1 as stated fails where a login occurs twice in the frame: the second row with
  the target's login is returned, with score 1.
\<close>

theorem recommendations_repeat_duplicate_login:
  "get_recommendations duplicate_login_frame ''torvalds'' 10 =
     Some [\<lparr>rec_Login = VStr ''torvalds'', rec_Profile_URL = VStr ''https://github.com/torvalds'',
             Common_Languages = {''C''}, Similarity_Score = 1, Avatar = VNone\<rparr>]"
  by (simp add: duplicate_login_frame_def analyzer_defs)

text \<open>
  Claim C10. Every similarity score that \<^verbatim>\<open>get_recommendations\<close> returns lies in
  \<open>[0, 1]\<close>: the incidence matrix is binary, so no cosine is negative.
\<close>

theorem similarity_scores_in_unit_interval:
  assumes "VStr username \<in> set (map Login df)"
  shows "\<exists>recs. get_recommendations df username top_n = Some recs
           \<and> (\<forall>r\<in>set recs. 0 \<le> Similarity_Score r \<and> Similarity_Score r \<le> 1)"
  using assms entry_score_bounds [OF assms]
  by (auto simp: get_recommendations_present)

text \<open>The statement above, at a frame of two users with the same language.\<close>

theorem similarity_scores_in_unit_interval_witness:
  "VStr ''ann'' \<in> set (map Login same_language_frame)
   \<and> get_recommendations same_language_frame ''ann'' 10 =
       Some [\<lparr>rec_Login = VStr ''bob'', rec_Profile_URL = VNone, Common_Languages = {''Python''},
               Similarity_Score = 1, Avatar = VNone\<rparr>]"
  using similarity_scores_in_unit_interval [of "''ann''" same_language_frame 10]
  by (simp add: same_language_frame_def analyzer_defs)

lemma slice_to_take: "\<exists>m. slice_to n xs = take m xs"
  by (cases "0 \<le> n") (auto simp: slice_to_def)

lemma similarity_row_length:
  assumes "VStr username \<in> set (map Login df)"
  shows "length (cosine_similarity (fit_transform (map LanguagesList df)) ! user_index df username)
           = length df"
proof -
  have "user_index df username < length (fit_transform (map LanguagesList df))"
    using user_index_present(1) [OF assms] by (simp add: length_fit_transform)
  then show ?thesis
    by (simp add: similarity_row length_fit_transform)
qed

lemma candidates_set:
  assumes "VStr username \<in> set (map Login df)"
  shows "set (sorted_reverse snd
           (filter (\<lambda>(idx, score). idx \<noteq> user_index df username)
              (enumerate 0 (cosine_similarity (fit_transform (map LanguagesList df))
                              ! user_index df username))))
         = {(j, similarity_to df username j) | j. j < length df \<and> j \<noteq> user_index df username}"
  using similarity_row_length [OF assms]
  by (auto simp: set_sorted_reverse in_set_enumerate_eq similarity_to_def)

lemma candidates_distinct:
  "distinct (map fst (sorted_reverse snd
           (filter (\<lambda>(idx, score). idx \<noteq> i) (enumerate 0 xs))))"
proof -
  have "distinct (map fst (filter (\<lambda>(idx, score). idx \<noteq> i) (enumerate 0 xs)))"
    by (rule distinct_map_filter) simp
  then show ?thesis
    by (simp add: sorted_reverse_def distinct_map)
qed

lemma ranking_scores:
  assumes "VStr username \<in> set (map Login df)" and "p \<in> set (ranking df username top_n)"
  shows "snd p = similarity_to df username (fst p)"
proof -
  have "p \<in> {(j, similarity_to df username j) | j. j < length df \<and> j \<noteq> user_index df username}"
    using assms(2) set_slice_to unfolding ranking_def candidates_set [OF assms(1), symmetric]
    by fastforce
  then show ?thesis by auto
qed

lemma ranking_distinct: "distinct (map fst (ranking df username top_n))"
proof -
  obtain m where "ranking df username top_n
      = take m (sorted_reverse snd
           (filter (\<lambda>(idx, score). idx \<noteq> user_index df username)
              (enumerate 0 (cosine_similarity (fit_transform (map LanguagesList df))
                              ! user_index df username))))"
    unfolding ranking_def using slice_to_take by blast
  then show ?thesis
    using candidates_distinct [of "user_index df username"]
    by (simp add: take_map [symmetric] del: take_map)
qed

lemma ranking_left_out:
  assumes pres: "VStr username \<in> set (map Login df)"
    and j: "j < length df" "j \<noteq> user_index df username" "j \<notin> fst ` set (ranking df username top_n)"
    and p: "p \<in> set (ranking df username top_n)"
  shows "similarity_to df username j \<le> snd p"
proof -
  let ?full = "sorted_reverse snd
           (filter (\<lambda>(idx, score). idx \<noteq> user_index df username)
              (enumerate 0 (cosine_similarity (fit_transform (map LanguagesList df))
                              ! user_index df username)))"
  obtain m where m: "ranking df username top_n = take m ?full"
    unfolding ranking_def using slice_to_take by blast
  have "(j, similarity_to df username j) \<in> set ?full"
    unfolding candidates_set [OF pres] using j(1,2) by blast
  then have "(j, similarity_to df username j) \<in> set (take m ?full) \<union> set (drop m ?full)"
    by (simp flip: set_append)
  moreover have "(j, similarity_to df username j) \<notin> set (take m ?full)"
    using j(3) unfolding m by force
  ultimately have d: "(j, similarity_to df username j) \<in> set (drop m ?full)"
    by blast
  have "sorted_wrt (\<lambda>a b. snd b \<le> snd a) (take m ?full @ drop m ?full)"
    using sorted_reverse_desc [of snd] by simp
  then have "\<forall>x\<in>set (take m ?full). \<forall>y\<in>set (drop m ?full). snd y \<le> snd x"
    unfolding sorted_wrt_append by blast
  then show ?thesis
    using d p unfolding m by fastforce
qed

text \<open>
  Claim C4. For a target login present in the frame, \<^verbatim>\<open>get_recommendations\<close> returns
  the entries of a list of positions of other rows, no position twice, each entry with
  the login of its row and the rounded similarity of that row to the target's row. The
  positions are in order of non-increasing similarity, and no row left out is more
  similar to the target than a row returned; so the returned similarity scores do not
  increase along the list. \<open>top_n\<close> being a count, the list has \<open>top_n\<close> entries, or all
  other rows when there are fewer; with \<open>top_n\<close> left at its default and at least 50 rows
  that are not the target's and have a language, it has exactly 10 entries.
\<close>

theorem recommendations_truncated_sorted:
  assumes "VStr username \<in> set (map Login df)"
  shows "\<exists>idxs. get_recommendations df username top_n
           = Some (map (\<lambda>i. \<lparr>rec_Login = Login (df ! i),
                              rec_Profile_URL = Profile_URL (df ! i),
                              Common_Languages = set (LanguagesList (df ! user_index df username))
                                                 \<inter> set (LanguagesList (df ! i)),
                              Similarity_Score = round3 (similarity_to df username i),
                              Avatar = Avatar_URL (df ! i)\<rparr>) idxs)
     \<and> distinct idxs
     \<and> (\<forall>i\<in>set idxs. i < length df \<and> i \<noteq> user_index df username)
     \<and> sorted_wrt (\<lambda>i j. similarity_to df username j \<le> similarity_to df username i) idxs
     \<and> (\<forall>j. j < length df \<and> j \<noteq> user_index df username \<and> j \<notin> set idxs \<longrightarrow>
           (\<forall>i\<in>set idxs. similarity_to df username j \<le> similarity_to df username i))
     \<and> sorted_wrt (\<lambda>i j. round3 (similarity_to df username j) \<le> round3 (similarity_to df username i)) idxs
     \<and> (0 \<le> top_n \<longrightarrow> length idxs \<le> nat top_n \<and> length idxs = min (nat top_n) (length df - 1))
     \<and> (top_n = default_top_n
          \<and> 50 \<le> length (filter (\<lambda>r. Login r \<noteq> VStr username \<and> LanguagesList r \<noteq> []) df)
          \<longrightarrow> length idxs = 10)"
proof -
  let ?rk = "ranking df username top_n"
  let ?idxs = "map fst ?rk"
  let ?sim = "similarity_to df username"
  have sc: "\<And>p. p \<in> set ?rk \<Longrightarrow> snd p = ?sim (fst p)"
    by (rule ranking_scores [OF assms])
  have "map (entry df username) ?rk
          = map (\<lambda>p. \<lparr>rec_Login = Login (df ! fst p),
                       rec_Profile_URL = Profile_URL (df ! fst p),
                       Common_Languages = set (LanguagesList (df ! user_index df username))
                                          \<inter> set (LanguagesList (df ! fst p)),
                       Similarity_Score = round3 (?sim (fst p)),
                       Avatar = Avatar_URL (df ! fst p)\<rparr>) ?rk"
    by (rule map_cong) (simp_all add: entry_def sc)
  then have eq: "get_recommendations df username top_n
           = Some (map (\<lambda>i. \<lparr>rec_Login = Login (df ! i),
                              rec_Profile_URL = Profile_URL (df ! i),
                              Common_Languages = set (LanguagesList (df ! user_index df username))
                                                 \<inter> set (LanguagesList (df ! i)),
                              Similarity_Score = round3 (?sim i),
                              Avatar = Avatar_URL (df ! i)\<rparr>) ?idxs)"
    by (simp add: get_recommendations_present [OF assms] comp_def)
  have d: "distinct ?idxs"
    by (rule ranking_distinct)
  have m: "\<forall>i\<in>set ?idxs. i < length df \<and> i \<noteq> user_index df username"
    using ranking_members(1,2) [OF assms] by fastforce
  have "sorted_wrt (\<lambda>a b. ?sim (fst b) \<le> ?sim (fst a)) ?rk"
    by (rule sorted_wrt_mono_rel [OF _ ranking_sorted]) (simp add: sc)
  then have s: "sorted_wrt (\<lambda>i j. ?sim j \<le> ?sim i) ?idxs"
    by (simp add: sorted_wrt_map)
  have l: "\<forall>j. j < length df \<and> j \<noteq> user_index df username \<and> j \<notin> set ?idxs \<longrightarrow>
           (\<forall>i\<in>set ?idxs. ?sim j \<le> ?sim i)"
  proof (intro allI impI ballI)
    fix j i
    assume j: "j < length df \<and> j \<noteq> user_index df username \<and> j \<notin> set ?idxs"
      and "i \<in> set ?idxs"
    then obtain p where p: "p \<in> set ?rk" "i = fst p" by auto
    have "?sim j \<le> snd p"
      using ranking_left_out [OF assms _ _ _ p(1), of j] j by simp
    then show "?sim j \<le> ?sim i"
      using sc [OF p(1)] p(2) by simp
  qed
  have r: "sorted_wrt (\<lambda>i j. round3 (?sim j) \<le> round3 (?sim i)) ?idxs"
    by (rule sorted_wrt_mono_rel [OF _ s]) (simp add: round3_mono)
  have a: "0 \<le> top_n \<longrightarrow> length ?idxs \<le> nat top_n \<and> length ?idxs = min (nat top_n) (length df - 1)"
    using length_ranking [OF assms] by simp
  have b: "length ?idxs = 10"
    if "top_n = default_top_n"
      and "50 \<le> length (filter (\<lambda>r. Login r \<noteq> VStr username \<and> LanguagesList r \<noteq> []) df)"
    using that eligible_le [OF assms] length_ranking [OF assms, of top_n]
    by (simp add: default_top_n_def)
  show ?thesis
    using eq d m s l r a b by blast
qed

lemma ranked_frame_result:
  "get_recommendations ranked_frame ''ann'' 2 =
     Some [\<lparr>rec_Login = VStr ''bob'', rec_Profile_URL = VNone, Common_Languages = {''Python''},
             Similarity_Score = 1, Avatar = VNone\<rparr>,
           \<lparr>rec_Login = VStr ''dee'', rec_Profile_URL = VNone, Common_Languages = {''Python''},
             Similarity_Score = 1 / 2, Avatar = VNone\<rparr>]"
  by (simp add: ranked_frame_def far_candidate_def half_candidate_def candidate_def analyzer_defs)

text \<open>
  The statement above, at a frame of the target and 51 candidates of three kinds, and at a
  frame of three candidates listed from the least to the most similar, of which the two
  most similar are asked for.
\<close>

theorem recommendations_truncated_sorted_witness:
  "VStr ''ann'' \<in> set (map Login varied_frame)
   \<and> 50 \<le> length (filter (\<lambda>r. Login r \<noteq> VStr ''ann'' \<and> LanguagesList r \<noteq> []) varied_frame)
   \<and> length (the (get_recommendations varied_frame ''ann'' default_top_n)) = 10
   \<and> VStr ''ann'' \<in> set (map Login ranked_frame)
   \<and> get_recommendations ranked_frame ''ann'' 2 =
       Some [\<lparr>rec_Login = VStr ''bob'', rec_Profile_URL = VNone, Common_Languages = {''Python''},
               Similarity_Score = 1, Avatar = VNone\<rparr>,
             \<lparr>rec_Login = VStr ''dee'', rec_Profile_URL = VNone, Common_Languages = {''Python''},
               Similarity_Score = 1 / 2, Avatar = VNone\<rparr>]"
proof -
  have h1: "VStr ''ann'' \<in> set (map Login varied_frame)"
    by (simp add: varied_frame_def)
  have h2: "50 \<le> length (filter (\<lambda>r. Login r \<noteq> VStr ''ann'' \<and> LanguagesList r \<noteq> []) varied_frame)"
    by (simp add: varied_frame_def candidate_def far_candidate_def half_candidate_def)
  have h3: "VStr ''ann'' \<in> set (map Login ranked_frame)"
    by (simp add: ranked_frame_def)
  from recommendations_truncated_sorted [OF h1, of default_top_n] h2
  have "length (the (get_recommendations varied_frame ''ann'' default_top_n)) = 10"
    by auto
  moreover from recommendations_truncated_sorted [OF h3, of 2]
  have "length (the (get_recommendations ranked_frame ''ann'' 2)) = 2"
    by (auto simp: ranked_frame_def)
  ultimately show ?thesis
    using h1 h2 h3 ranked_frame_result by simp
qed

section \<open>Properties of the fetchers and of the store\<close>

lemma io_bind_Inr: "m w = (Inr x, w') \<Longrightarrow> io_bind m f w = f x w'"
  by (simp add: io_bind_def)

lemma io_bind_Inl: "m w = (Inl e, w') \<Longrightarrow> io_bind m f w = (Inl e, w')"
  by (simp add: io_bind_def)

lemma try_except_Inr: "m w = (Inr x, w') \<Longrightarrow> try_except m d w = (Inr x, w')"
  by (simp add: try_except_def)

lemma try_except_Inl: "m w = (Inl e, w') \<Longrightarrow> try_except m d w = (Inr d, w')"
  by (simp add: try_except_def)

lemma io_bind_result:
  "io_bind m f w = (Inr y, w') \<Longrightarrow> \<exists>x w1. m w = (Inr x, w1) \<and> f x w1 = (Inr y, w')"
  by (auto simp: io_bind_def split: prod.splits sum.splits)

lemma try_except_result:
  "try_except m None w = (Inr (Some x), w') \<Longrightarrow> m w = (Inr (Some x), w')"
  by (auto simp: try_except_def split: prod.splits sum.splits)

lemma same_store_refl: "same_store w w"
  by (simp add: same_store_def)

lemma same_store_trans: "same_store w w' \<Longrightarrow> same_store w' w'' \<Longrightarrow> same_store w w''"
  by (simp add: same_store_def)

lemma keeps_storeD: "keeps_store m \<Longrightarrow> m w = (r, w') \<Longrightarrow> same_store w w'"
  by (auto simp: keeps_store_def dest: spec [of _ w])

lemma keeps_store_returns: "keeps_store (returns x)"
  by (simp add: keeps_store_def returns_def same_store_refl)

lemma keeps_store_raises: "keeps_store (raises e)"
  by (simp add: keeps_store_def raises_def same_store_refl)

lemma keeps_store_lift: "keeps_store (lift r)"
  by (simp add: keeps_store_def lift_def same_store_refl)

lemma keeps_store_bind:
  assumes "keeps_store m" and "\<And>x. keeps_store (f x)"
  shows "keeps_store (io_bind m f)"
  unfolding keeps_store_def
proof
  fix w
  obtain r w' where mw: "m w = (r, w')" by (cases "m w")
  have s: "same_store w w'" by (rule keeps_storeD [OF assms(1) mw])
  show "same_store w (snd (io_bind m f w))"
  proof (cases r)
    case (Inl e)
    then show ?thesis using mw s by (simp add: io_bind_def)
  next
    case (Inr x)
    obtain r' w'' where fw: "f x w' = (r', w'')" by (cases "f x w'")
    have "same_store w' w''" by (rule keeps_storeD [OF assms(2) fw])
    then show ?thesis using Inr mw s fw by (simp add: io_bind_def same_store_trans)
  qed
qed

lemma keeps_store_try: "keeps_store m \<Longrightarrow> keeps_store (try_except m d)"
proof -
  assume k: "keeps_store m"
  show ?thesis
    unfolding keeps_store_def
  proof
    fix w
    obtain r w' where mw: "m w = (r, w')" by (cases "m w")
    have "same_store w w'" by (rule keeps_storeD [OF k mw])
    then show "same_store w (snd (try_except m d w))"
      using mw by (cases r) (simp_all add: try_except_def)
  qed
qed

lemma keeps_store_requests_get: "keeps_store (requests_get ep url)"
  by (simp add: keeps_store_def requests_get_def same_store_def Let_def split: option.splits)

lemma keeps_store_time_sleep: "keeps_store (time_sleep n)"
  by (simp add: keeps_store_def time_sleep_def same_store_def)

lemmas keeps_store_intros =
  keeps_store_returns keeps_store_raises keeps_store_lift keeps_store_bind keeps_store_try
  keeps_store_requests_get keeps_store_time_sleep

lemma keeps_store_get_json: "keeps_store (get_json ep url)"
  unfolding get_json_def
  by (cases url) (auto intro!: keeps_store_intros)

lemma keeps_store_get_list: "keeps_store (get_list gh url key)"
  unfolding get_list_def by (intro keeps_store_intros keeps_store_get_json)

lemma keeps_store_get_starred_or_subs: "keeps_store (get_starred_or_subs gh url)"
  unfolding get_starred_or_subs_def by (intro keeps_store_intros keeps_store_get_json)

lemma keeps_store_languages_loop: "keeps_store (languages_loop gh repos d)"
proof (induction repos arbitrary: d)
  case Nil
  show ?case by (simp add: keeps_store_returns)
next
  case (Cons repo repos)
  show ?case
    by (cases "languages_url repo")
      (auto intro!: keeps_store_intros keeps_store_get_json Cons.IH)
qed

lemma keeps_store_get_languages: "keeps_store (get_languages gh username)"
  unfolding get_languages_def
  by (intro keeps_store_intros keeps_store_get_json keeps_store_languages_loop)

lemma keeps_store_total_commits_loop: "keeps_store (total_commits_loop gh repos t)"
proof (induction repos arbitrary: t)
  case Nil
  show ?case by (simp add: keeps_store_returns)
next
  case (Cons repo repos)
  show ?case
    by (cases "commits_url repo") (auto intro!: keeps_store_intros Cons.IH)
qed

lemma keeps_store_get_total_commits: "keeps_store (get_total_commits gh username)"
  unfolding get_total_commits_def
  by (intro keeps_store_intros keeps_store_get_json keeps_store_total_commits_loop)

lemma keeps_store_get_commit_count: "keeps_store (get_commit_count gh username repo_name)"
  unfolding get_commit_count_def
  by (auto intro!: keeps_store_intros split: option.splits)

lemma keeps_store_repos_loop: "keeps_store (repos_loop gh isoparse username repos a)"
proof (induction repos arbitrary: a)
  case Nil
  show ?case by (simp add: keeps_store_returns)
next
  case (Cons repo repos)
  show ?case
    by (auto intro!: keeps_store_intros keeps_store_get_commit_count Cons.IH)
qed

lemma keeps_store_fetch_user_data: "keeps_store (fetch_user_data gh isoparse username)"
  unfolding fetch_user_data_def
  by (auto intro!: keeps_store_intros keeps_store_repos_loop)

lemma no_raise_try: "no_raise (try_except m d)"
  by (auto simp: no_raise_def try_except_def split: prod.splits sum.splits)

lemma no_raise_get_list: "no_raise (get_list gh url key)"
  unfolding get_list_def by (rule no_raise_try)

lemma no_raise_get_starred_or_subs: "no_raise (get_starred_or_subs gh url)"
  unfolding get_starred_or_subs_def by (rule no_raise_try)

lemma no_raise_get_languages: "no_raise (get_languages gh username)"
  unfolding get_languages_def by (rule no_raise_try)

lemma no_raise_get_total_commits: "no_raise (get_total_commits gh username)"
  unfolding get_total_commits_def by (rule no_raise_try)

lemma no_raise_fetch_and_store_user: "no_raise (fetch_and_store_user gh username)"
  unfolding fetch_and_store_user_def by (rule no_raise_try)

lemma no_raiseE:
  assumes "no_raise m"
  obtains x w' where "m w = (Inr x, w')"
  using assms unfolding no_raise_def
  by (metis prod.collapse)


lemma get_json_other:
  assumes "ep u (clock w) = Some r1" and "status_code r1 \<noteq> 403"
  shows "get_json ep (VStr u) w =
           (checked_json r1, w\<lparr>clock := clock w + 1, trace := trace w @ [Request u]\<rparr>)"
  using assms
  by (simp add: get_json_def io_bind_def lift_def requests_get_def Let_def)




lemma set_in_first_nth:
  "list_ex P ds \<Longrightarrow>
     set_in_first P data ds = ds[first_index P ds := (ds ! first_index P ds) ++ map_of data]"
  by (induction ds) auto

lemma first_index_list_ex:
  "list_ex P ds \<Longrightarrow> first_index P ds < length ds \<and> P (ds ! first_index P ds)"
  by (induction ds) auto




lemma upserts_bind:
  assumes "keeps_store m" and "\<And>x. upserts username (f x)"
  shows "upserts username (io_bind m f)"
  unfolding upserts_def
proof (intro allI impI)
  fix w0 w r w'
  assume s: "same_store w0 w" and b: "io_bind m f w = (r, w')"
  obtain r1 w1 where mw: "m w = (r1, w1)" by (cases "m w")
  have s1: "same_store w0 w1"
    by (rule same_store_trans [OF s keeps_storeD [OF assms(1) mw]])
  show "collection w' =
          (case r of Inr (Some data) \<Rightarrow> collection (snd (update_one username data w0))
           | _ \<Rightarrow> collection w0)"
  proof (cases r1)
    case (Inl e)
    then have "r = Inl e" "w' = w1" using mw b by (simp_all add: io_bind_def)
    then show ?thesis using s1 by (simp add: same_store_def)
  next
    case (Inr x)
    then have "f x w1 = (r, w')" using mw b by (simp add: io_bind_def)
    with assms(2) [of x] s1 show ?thesis
      unfolding upserts_def by blast
  qed
qed

lemma upserts_store:
  "upserts username (io_bind (update_one username data) (\<lambda>_. returns (Some data)))"
  unfolding upserts_def
  by (auto simp: io_bind_def returns_def update_one_def same_store_def split: if_splits)

lemma upserts_try: "upserts username g \<Longrightarrow> upserts username (try_except g None)"
  unfolding upserts_def
proof (intro allI impI)
  fix w0 w r w'
  assume g: "\<forall>w0 w r w'. same_store w0 w \<longrightarrow> g w = (r, w') \<longrightarrow>
        collection w' = (case r of Inr (Some data) \<Rightarrow> collection (snd (update_one username data w0))
           | _ \<Rightarrow> collection w0)"
    and s: "same_store w0 w" and t: "try_except g None w = (r, w')"
  obtain r1 w1 where gw: "g w = (r1, w1)" by (cases "g w")
  from g s gw have c: "collection w1 =
        (case r1 of Inr (Some data) \<Rightarrow> collection (snd (update_one username data w0))
           | _ \<Rightarrow> collection w0)" by blast
  show "collection w' = (case r of Inr (Some data) \<Rightarrow> collection (snd (update_one username data w0))
           | _ \<Rightarrow> collection w0)"
    using gw t c by (cases r1) (auto simp: try_except_def)
qed

lemma upserts_fetch_and_store_user: "upserts username (fetch_and_store_user gh username)"
  unfolding fetch_and_store_user_def
  by (intro upserts_try upserts_bind upserts_store keeps_store_get_json keeps_store_get_list
      keeps_store_get_starred_or_subs keeps_store_get_languages keeps_store_get_total_commits
      keeps_store_lift)

lemma fetch_and_store_user_collection:
  "collection (snd (fetch_and_store_user gh username w)) =
     (case fst (fetch_and_store_user gh username w) of
        Inr (Some data) \<Rightarrow> collection (snd (update_one username data w))
      | _ \<Rightarrow> collection w)"
  using upserts_fetch_and_store_user [of username gh] same_store_refl [of w]
  unfolding upserts_def
  by (metis prod.collapse)

lemma update_one_up: "store_up w \<Longrightarrow> \<exists>w'. update_one username data w = (Inr (), w')"
  by (simp add: update_one_def)

lemma keeps_store_up: "keeps_store m \<Longrightarrow> m w = (r, w') \<Longrightarrow> store_up w' = store_up w"
  using keeps_storeD [of m w r w'] by (simp add: same_store_def)

lemma fetch_and_store_user_success:
  assumes p: "get_json (profile_at gh) (VStr (users_url username)) w = (Inr user, w0)"
    and f: "py_get user ''following_url'' = VStr s"
    and up: "store_up w"
  shows "\<exists>followers following starred subscriptions organizations langs tot w'.
           fetch_and_store_user gh username w =
             (Inr (Some (user_record user followers following starred subscriptions
                           organizations langs tot)), w')"
proof -
  obtain followers w1 where e1:
    "get_list gh (py_get user ''followers_url'') ''login'' w0 = (Inr followers, w1)"
    by (rule no_raiseE [OF no_raise_get_list])
  have e2: "lift (following_base (py_get user ''following_url'')) w1
              = (Inr (hd (split_str ''{'' s)), w1)"
    by (simp add: lift_def following_base_def f)
  obtain following w2 where e3:
    "get_list gh (VStr (hd (split_str ''{'' s))) ''login'' w1 = (Inr following, w2)"
    by (rule no_raiseE [OF no_raise_get_list])
  obtain starred w3 where e4:
    "get_starred_or_subs gh (VStr (users_url username @ ''/starred'')) w2 = (Inr starred, w3)"
    by (rule no_raiseE [OF no_raise_get_starred_or_subs])
  obtain subscriptions w4 where e5:
    "get_starred_or_subs gh (VStr (users_url username @ ''/subscriptions'')) w3
       = (Inr subscriptions, w4)"
    by (rule no_raiseE [OF no_raise_get_starred_or_subs])
  obtain organizations w5 where e6:
    "get_list gh (VStr (users_url username @ ''/orgs'')) ''login'' w4 = (Inr organizations, w5)"
    by (rule no_raiseE [OF no_raise_get_list])
  obtain langs w6 where e7: "get_languages gh username w5 = (Inr langs, w6)"
    by (rule no_raiseE [OF no_raise_get_languages])
  obtain tot w7 where e8: "get_total_commits gh username w6 = (Inr tot, w7)"
    by (rule no_raiseE [OF no_raise_get_total_commits])
  have "store_up w0 = store_up w" by (rule keeps_store_up [OF keeps_store_get_json p])
  moreover have "store_up w1 = store_up w0" by (rule keeps_store_up [OF keeps_store_get_list e1])
  moreover have "store_up w2 = store_up w1" by (rule keeps_store_up [OF keeps_store_get_list e3])
  moreover have "store_up w3 = store_up w2"
    by (rule keeps_store_up [OF keeps_store_get_starred_or_subs e4])
  moreover have "store_up w4 = store_up w3"
    by (rule keeps_store_up [OF keeps_store_get_starred_or_subs e5])
  moreover have "store_up w5 = store_up w4" by (rule keeps_store_up [OF keeps_store_get_list e6])
  moreover have "store_up w6 = store_up w5" by (rule keeps_store_up [OF keeps_store_get_languages e7])
  moreover have "store_up w7 = store_up w6"
    by (rule keeps_store_up [OF keeps_store_get_total_commits e8])
  ultimately have "store_up w7" using up by simp
  then obtain w8 where e9:
    "update_one username
       (user_record user followers following starred subscriptions organizations langs tot) w7
     = (Inr (), w8)"
    using update_one_up by blast
  have "fetch_and_store_user gh username w =
          (Inr (Some (user_record user followers following starred subscriptions
                        organizations langs tot)), w8)"
    unfolding fetch_and_store_user_def
    by (simp add: try_except_def io_bind_def returns_def p e1 e2 e3 e4 e5 e6 e7 e8 e9)
  then show ?thesis by blast
qed

lemma profile_only_get_json:
  "store_up w \<Longrightarrow>
   get_json (profile_at profile_only) (VStr (users_url ''octocat'')) w
     = (Inr octocat_profile,
        w\<lparr>clock := clock w + 1, trace := trace w @ [Request (users_url ''octocat'')]\<rparr>)"
  by (simp add: get_json_other [where ?r1.0 = "Response 200 [] (Some octocat_profile)"]
      profile_only_def checked_json_def raise_for_status_def json_def)

lemma user_record_lookup:
  "map_of (user_record user a b c d e f g) ''Login'' = Some (py_get user ''login'')"
  "map_of (user_record user a b c d e f g) ''Commits Per Repo'' = None"
  by (simp_all add: user_record_def)

lemma octocat_following: "py_get octocat_profile ''following_url''
    = VStr ''https://api.github.com/users/octocat/following{/other_user}''"
  by (simp add: octocat_profile_def py_get_def dict_get_def)

lemma octocat_login: "py_get octocat_profile ''login'' = VStr ''octocat''"
  by (simp add: octocat_profile_def py_get_def dict_get_def)


text \<open>
  Claim C8 as stated fails in \<^verbatim>\<open>Recommendation_dashboard.py\<close>: the fetch operation
  \<^verbatim>\<open>fetch_and_store_user\<close> leaves a document in a collection that was empty.
\<close>

theorem fetch_and_store_user_writes_store:
  "collection world0 = []
   \<and> length (collection (snd (fetch_and_store_user profile_only ''octocat'' world0))) = 1
   \<and> (collection (snd (fetch_and_store_user profile_only ''octocat'' world0)) ! 0) ''Login''
       = Some (VStr ''octocat'')"
proof -
  have up: "store_up world0" by (simp add: world0_def)
  obtain a b c d e f g w' where r:
    "fetch_and_store_user profile_only ''octocat'' world0
       = (Inr (Some (user_record octocat_profile a b c d e f g)), w')"
    using fetch_and_store_user_success [OF profile_only_get_json [OF up] octocat_following up]
    by blast
  have c: "collection w' = collection (snd (update_one ''octocat''
              (user_record octocat_profile a b c d e f g) world0))"
    using fetch_and_store_user_collection [of profile_only "''octocat''" world0] r by simp
  show ?thesis
    unfolding r
    by (simp add: c) (simp add: update_one_def world0_def map_add_def user_record_lookup octocat_login)
qed

lemma dashboard_user_collection:
  "collection (snd (dashboard_user gh isoparse username w)) =
     (case fst (dashboard_user gh isoparse username w) of
        Inr (Some user) \<Rightarrow>
          if find (matches_login username) (collection w) = None
          then collection w @ [user] else collection w
      | _ \<Rightarrow> collection w)"
proof (cases "username = [] \<or> \<not> store_up w")
  case True
  then show ?thesis
    by (auto simp: dashboard_user_def returns_def io_bind_def find_one_def)
next
  case False
  then have u: "username \<noteq> []" and up: "store_up w" by simp_all
  show ?thesis
  proof (cases "find (matches_login username) (collection w)")
    case (Some user)
    then show ?thesis using u up
      by (simp add: dashboard_user_def returns_def io_bind_def find_one_def)
  next
    case None
    obtain r w1 where fw: "fetch_user_data gh isoparse username w = (r, w1)"
      by (cases "fetch_user_data gh isoparse username w")
    have s: "same_store w w1" by (rule keeps_storeD [OF keeps_store_fetch_user_data fw])
    have d: "dashboard_user gh isoparse username w =
        (case r of Inl e \<Rightarrow> (Inl e, w1)
         | Inr None \<Rightarrow> (Inr None, w1)
         | Inr (Some user) \<Rightarrow> io_bind (insert_one user) (\<lambda>stored_user. returns (Some stored_user)) w1)"
      using u up None fw
      by (simp add: dashboard_user_def returns_def io_bind_def find_one_def
          split: sum.splits option.splits)
    show ?thesis
      using s None unfolding d
      by (auto simp: io_bind_def returns_def insert_one_def same_store_def
          split: sum.splits option.splits)
  qed
qed

text \<open>
  Claim C8, amended. \<^verbatim>\<open>fetch_user_data\<close> of \<^verbatim>\<open>dashboard.py\<close> leaves the collection
  unchanged, and its caller adds the fetched record after a miss. \<^verbatim>\<open>fetch_and_store_user\<close>
  of \<^verbatim>\<open>Recommendation_dashboard.py\<close> upserts the record it returns itself, and leaves the
  collection unchanged when it returns \<^verbatim>\<open>None\<close>.
\<close>

theorem store_effects_of_fetch:
  "collection (snd (fetch_user_data gh isoparse username w)) = collection w
   \<and> collection (snd (dashboard_user gh isoparse username w)) =
       (case fst (dashboard_user gh isoparse username w) of
          Inr (Some user) \<Rightarrow>
            if find (matches_login username) (collection w) = None
            then collection w @ [user] else collection w
        | _ \<Rightarrow> collection w)
   \<and> collection (snd (fetch_and_store_user gh username w)) =
       (case fst (fetch_and_store_user gh username w) of
          Inr (Some data) \<Rightarrow> collection (snd (update_one username data w))
        | _ \<Rightarrow> collection w)"
proof -
  obtain r w' where "fetch_user_data gh isoparse username w = (r, w')"
    by (cases "fetch_user_data gh isoparse username w")
  from keeps_storeD [OF keeps_store_fetch_user_data this] this
  have "collection (snd (fetch_user_data gh isoparse username w)) = collection w"
    by (simp add: same_store_def)
  then show ?thesis
    using dashboard_user_collection [of gh isoparse username w]
      fetch_and_store_user_collection [of gh username w] by simp
qed

lemma total_commits_loop_bound:
  assumes h: "\<And>url n r cs. commits_at gh (with_params url ''per_page=1'') n = Some r \<Longrightarrow>
                body r = Some (CommitList cs) \<Longrightarrow> length cs \<le> 1"
  shows "total_commits_loop gh repos t w = (Inr t', w') \<Longrightarrow>
           t \<le> t' \<and> t' \<le> t + int (length (filter (\<lambda>r. \<not> is_fork r) repos))"
proof (induction repos arbitrary: t w)
  case Nil
  then show ?case by (simp add: returns_def)
next
  case (Cons repo repos)
  show ?case
  proof (cases "is_fork repo")
    case True
    then show ?thesis using Cons.IH [of t w] Cons.prems by simp
  next
    case False
    show ?thesis
    proof (cases "commits_url repo")
      case None
      then show ?thesis using False Cons.prems by (simp add: raises_def)
    next
      case (Some u)
      let ?url = "with_params (replace_str ''{/sha}'' [] u) ''per_page=1''"
      obtain r w1 where g: "requests_get (commits_at gh) ?url w = (r, w1)"
        by (cases "requests_get (commits_at gh) ?url w")
      show ?thesis
      proof (cases r)
        case (Inl e)
        then show ?thesis using False Some g Cons.prems by (simp add: io_bind_def)
      next
        case (Inr resp)
        have at: "commits_at gh ?url (clock w) = Some resp"
          using g Inr by (auto simp: requests_get_def Let_def split: option.splits)
        show ?thesis
        proof (cases "status_code resp = 200")
          case ok: True
          show ?thesis
          proof (cases "body resp")
            case None
            then show ?thesis
              using False Some g Inr ok Cons.prems by (simp add: io_bind_def lift_def json_def)
          next
            case (Some b)
            have l: "0 \<le> listed_commits b \<and> listed_commits b \<le> 1"
              using h [OF at] Some by (cases b) (auto simp: listed_commits_def)
            have "total_commits_loop gh repos (t + listed_commits b) w1 = (Inr t', w')"
              using False \<open>commits_url repo = Some u\<close> g Inr ok Some Cons.prems
              by (simp add: io_bind_def lift_def json_def)
            from Cons.IH [OF this] l show ?thesis using False by simp
          qed
        next
          case no: False
          have "total_commits_loop gh repos t w1 = (Inr t', w')"
            using False Some g Inr no Cons.prems by (simp add: io_bind_def)
          from Cons.IH [OF this] show ?thesis using False by simp
        qed
      qed
    qed
  qed
qed

lemma get_json_body:
  "get_json ep url w = (Inr x, w1) \<Longrightarrow> \<exists>u n r. url = VStr u \<and> ep u n = Some r \<and> body r = Some x"
  by (auto simp: get_json_def io_bind_def requests_get_def lift_def checked_json_def json_def
      raises_def time_sleep_def Let_def
      split: val.splits option.splits if_splits sum.splits)

lemma get_total_commits_bound:
  assumes h: "\<And>url n r cs. commits_at gh (with_params url ''per_page=1'') n = Some r \<Longrightarrow>
                body r = Some (CommitList cs) \<Longrightarrow> length cs \<le> 1"
    and l: "\<And>n r rs. repos_at gh (user_repos_url username) n = Some r \<Longrightarrow> body r = Some rs
                \<Longrightarrow> rs = repos"
    and run: "get_total_commits gh username w = (Inr t, w')"
  shows "0 \<le> t \<and> t \<le> int (length (filter (\<lambda>r. \<not> is_fork r) repos))"
proof -
  obtain r w1 where g: "get_json (repos_at gh) (VStr (user_repos_url username)) w = (r, w1)"
    by (cases "get_json (repos_at gh) (VStr (user_repos_url username)) w")
  show ?thesis
  proof (cases r)
    case (Inl e)
    then have "t = 0"
      using g run by (simp add: get_total_commits_def try_except_def io_bind_def)
    then show ?thesis by simp
  next
    case (Inr rs)
    then have rs: "rs = repos"
      using get_json_body [of "repos_at gh" "VStr (user_repos_url username)" w rs w1] g l
      by auto
    obtain r2 w2 where lp: "total_commits_loop gh repos 0 w1 = (r2, w2)"
      by (cases "total_commits_loop gh repos 0 w1")
    show ?thesis
    proof (cases r2)
      case (Inl e)
      then have "t = 0"
        using g Inr rs lp run by (simp add: get_total_commits_def try_except_def io_bind_def)
      then show ?thesis by simp
    next
      case inr: (Inr t2)
      then have "t = t2"
        using g Inr rs lp run by (simp add: get_total_commits_def try_except_def io_bind_def)
      then show ?thesis
        using total_commits_loop_bound [where gh = gh and repos = repos and t = 0 and w = w1
            and t' = t2 and w' = w2] h lp inr
        by simp
    qed
  qed
qed

lemma fetch_and_store_user_run:
  assumes "fetch_and_store_user gh username w = (Inr (Some data), w')"
  shows "\<exists>user followers following starred subscriptions organizations langs tot w6 w7.
           data = user_record user followers following starred subscriptions organizations langs tot
           \<and> same_store w w6
           \<and> get_total_commits gh username w6 = (Inr tot, w7)
           \<and> same_store w6 w7
           \<and> update_one username data w7 = (Inr (), w')"
proof -
  from assms [unfolded fetch_and_store_user_def, THEN try_except_result]
  obtain user w0 followers w1 fu w1' following w2 starred w3 subscriptions w4 organizations w5
    langs w6 tot w7 w8 where
    e0: "get_json (profile_at gh) (VStr (users_url username)) w = (Inr user, w0)"
    and e1: "get_list gh (py_get user ''followers_url'') ''login'' w0 = (Inr followers, w1)"
    and e2: "lift (following_base (py_get user ''following_url'')) w1 = (Inr fu, w1')"
    and e3: "get_list gh (VStr fu) ''login'' w1' = (Inr following, w2)"
    and e4: "get_starred_or_subs gh (VStr (users_url username @ ''/starred'')) w2 = (Inr starred, w3)"
    and e5: "get_starred_or_subs gh (VStr (users_url username @ ''/subscriptions'')) w3
           = (Inr subscriptions, w4)"
    and e6: "get_list gh (VStr (users_url username @ ''/orgs'')) ''login'' w4 = (Inr organizations, w5)"
    and e7: "get_languages gh username w5 = (Inr langs, w6)"
    and e8: "get_total_commits gh username w6 = (Inr tot, w7)"
    and e9: "update_one username
           (user_record user followers following starred subscriptions organizations langs tot) w7
         = (Inr (), w8)"
    and e10: "returns (Some (user_record user followers following starred subscriptions
                               organizations langs tot)) w8 = (Inr (Some data), w')"
    by (auto dest!: io_bind_result)
  have d: "data = user_record user followers following starred subscriptions organizations langs tot"
    and w8: "w8 = w'"
    using e10 by (simp_all add: returns_def)
  have s: "same_store w w0" "same_store w0 w1" "same_store w1 w1'" "same_store w1' w2"
    "same_store w2 w3" "same_store w3 w4" "same_store w4 w5" "same_store w5 w6" "same_store w6 w7"
    using keeps_storeD [OF keeps_store_get_json e0] keeps_storeD [OF keeps_store_get_list e1]
      keeps_storeD [OF keeps_store_lift e2] keeps_storeD [OF keeps_store_get_list e3]
      keeps_storeD [OF keeps_store_get_starred_or_subs e4]
      keeps_storeD [OF keeps_store_get_starred_or_subs e5]
      keeps_storeD [OF keeps_store_get_list e6] keeps_storeD [OF keeps_store_get_languages e7]
      keeps_storeD [OF keeps_store_get_total_commits e8]
    by simp_all
  have "same_store w w6"
    using s(1-8) by (blast intro: same_store_trans)
  then show ?thesis
    using d e8 e9 s(9) w8 by blast
qed

lemma update_one_position:
  assumes "update_one username data w = (Inr (), w')" and "map_of data k = Some v"
  shows "upsert_position username (collection w) < length (collection w')
     \<and> (collection w' ! upsert_position username (collection w)) k = Some v"
proof (cases "list_ex (matches_login username) (collection w)")
  case True
  have up: "store_up w"
    using assms(1) by (auto simp: update_one_def split: if_splits)
  let ?i = "first_index (matches_login username) (collection w)"
  have i: "?i < length (collection w)"
    using first_index_list_ex [OF True] by simp
  have "collection w' = (collection w)[?i := (collection w ! ?i) ++ map_of data]"
    using assms(1) up True by (auto simp: update_one_def set_in_first_nth)
  then show ?thesis
    using True i assms(2) by (simp add: upsert_position_def)
next
  case False
  then show ?thesis
    using assms by (auto simp: update_one_def upsert_position_def nth_append split: if_splits)
qed

text \<open>
  Claim C9. Let the platform honour \<^verbatim>\<open>per_page=1\<close> (a commit list that it returns for
  a URL with this parameter has at most one item) and list \<open>repos\<close> as the repositories
  of the user. Whenever \<^verbatim>\<open>fetch_and_store_user\<close> returns a record, its
  \<^verbatim>\<open>Total Commits\<close> is a number from 0 to the number of non-fork repositories of
  \<open>repos\<close>, and this number is the \<^verbatim>\<open>Total Commits\<close> of the document that the fetch
  wrote to the collection.
\<close>

theorem total_commits_at_most_nonfork_count:
  assumes "\<forall>url n r cs. commits_at gh (with_params url ''per_page=1'') n = Some r
             \<and> body r = Some (CommitList cs) \<longrightarrow> length cs \<le> 1"
    and "\<forall>n r rs. repos_at gh (user_repos_url username) n = Some r \<and> body r = Some rs
             \<longrightarrow> rs = repos"
    and "fst (fetch_and_store_user gh username w) = Inr (Some data)"
  shows "\<exists>t. map_of data ''Total Commits'' = Some (VInt t)
           \<and> 0 \<le> t \<and> t \<le> int (length (filter (\<lambda>r. \<not> is_fork r) repos))
           \<and> upsert_position username (collection w)
               < length (collection (snd (fetch_and_store_user gh username w)))
           \<and> (collection (snd (fetch_and_store_user gh username w))
                ! upsert_position username (collection w)) ''Total Commits'' = Some (VInt t)"
proof -
  obtain w' where run: "fetch_and_store_user gh username w = (Inr (Some data), w')"
    using assms(3) by (cases "fetch_and_store_user gh username w") simp
  from fetch_and_store_user_run [OF run]
  obtain user followers following starred subscriptions organizations langs tot w6 w7 where
    d: "data = user_record user followers following starred subscriptions organizations langs tot"
    and s: "same_store w w6" "same_store w6 w7"
    and t: "get_total_commits gh username w6 = (Inr tot, w7)"
    and u: "update_one username data w7 = (Inr (), w')"
    by blast
  have f: "map_of data ''Total Commits'' = Some (VInt tot)"
    by (simp add: d user_record_def)
  have b: "0 \<le> tot \<and> tot \<le> int (length (filter (\<lambda>r. \<not> is_fork r) repos))"
    using get_total_commits_bound [where gh = gh and username = username and repos = repos
        and w = w6 and t = tot and w' = w7] assms(1,2) t
    by blast
  have c: "collection w7 = collection w"
    using s by (simp add: same_store_def)
  have "upsert_position username (collection w) < length (collection w')
     \<and> (collection w' ! upsert_position username (collection w)) ''Total Commits'' = Some (VInt tot)"
    using update_one_position [OF u f] c by simp
  then show ?thesis
    using f b run by auto
qed

lemma replace_sha:
  "replace_str ''{/sha}'' [] ''https://api.github.com/repos/octocat/hello/commits{/sha}''
     = ''https://api.github.com/repos/octocat/hello/commits''"
  by (simp add: startswith_def)

lemma two_repos_get_json:
  "get_json (repos_at two_repos) (VStr (user_repos_url ''octocat'')) w
     = (Inr [hello_repo, forked_repo],
        w\<lparr>clock := clock w + 1, trace := trace w @ [Request (user_repos_url ''octocat'')]\<rparr>)"
  by (simp add: get_json_other [where ?r1.0 = "Response 200 [] (Some [hello_repo, forked_repo])"]
      two_repos_def checked_json_def raise_for_status_def json_def)

lemma two_repos_total: "fst (get_total_commits two_repos ''octocat'' w) = Inr 1"
proof -
  have f: "\<not> is_fork hello_repo" "is_fork forked_repo"
    "commits_url hello_repo = Some ''https://api.github.com/repos/octocat/hello/commits{/sha}''"
    by (simp_all add: is_fork_def hello_repo_def forked_repo_def)
  have c: "\<And>url w. requests_get (commits_at two_repos) url w
      = (Inr (Response 200 [] (Some one_commit)),
         w\<lparr>clock := clock w + 1, trace := trace w @ [Request url]\<rparr>)"
    by (simp add: requests_get_def two_repos_def)
  show ?thesis
    by (simp add: get_total_commits_def try_except_def io_bind_def two_repos_get_json f c
        replace_sha lift_def json_def returns_def listed_commits_def one_commit_def)
qed

text \<open>
  The statement above, at a user with one repository of their own and one fork, fetched
  into an empty collection.
\<close>

theorem total_commits_at_most_nonfork_count_witness:
  "(case fst (fetch_and_store_user two_repos ''octocat'' world0) of
      Inr (Some data) \<Rightarrow> map_of data ''Total Commits'' = Some (VInt 1)
    | _ \<Rightarrow> False)
   \<and> upsert_position ''octocat'' (collection world0) = 0
   \<and> (collection (snd (fetch_and_store_user two_repos ''octocat'' world0)) ! 0) ''Total Commits''
       = Some (VInt 1)
   \<and> length (filter (\<lambda>r. \<not> is_fork r) [hello_repo, forked_repo]) = 1"
proof -
  have h1: "\<forall>url n r cs. commits_at two_repos (with_params url ''per_page=1'') n = Some r
             \<and> body r = Some (CommitList cs) \<longrightarrow> length cs \<le> 1"
    by (auto simp: two_repos_def one_commit_def)
  have h2: "\<forall>n r rs. repos_at two_repos (user_repos_url ''octocat'') n = Some r \<and> body r = Some rs
             \<longrightarrow> rs = [hello_repo, forked_repo]"
    by (auto simp: two_repos_def)
  have up: "store_up world0" by (simp add: world0_def)
  have p: "get_json (profile_at two_repos) (VStr (users_url ''octocat'')) world0
     = (Inr octocat_profile,
        world0\<lparr>clock := clock world0 + 1, trace := trace world0 @ [Request (users_url ''octocat'')]\<rparr>)"
    by (simp add: get_json_other [where ?r1.0 = "Response 200 [] (Some octocat_profile)"]
      two_repos_def checked_json_def raise_for_status_def json_def)
  obtain a b c d e f g w' where r:
    "fetch_and_store_user two_repos ''octocat'' world0
       = (Inr (Some (user_record octocat_profile a b c d e f g)), w')"
    using fetch_and_store_user_success [OF p octocat_following up] by blast
  from fetch_and_store_user_run [OF r] obtain tot w6 w7 where
    "map_of (user_record octocat_profile a b c d e f g) ''Total Commits'' = Some (VInt tot)"
    and "get_total_commits two_repos ''octocat'' w6 = (Inr tot, w7)"
    by (auto simp: user_record_def)
  then have g: "g = 1"
    using two_repos_total [of w6] by (simp add: user_record_def)
  have f: "\<not> is_fork hello_repo" "is_fork forked_repo"
    by (simp_all add: is_fork_def hello_repo_def forked_repo_def)
  have i: "upsert_position ''octocat'' (collection world0) = 0"
    by (simp add: upsert_position_def world0_def)
  from total_commits_at_most_nonfork_count [OF h1 h2, of world0 "user_record octocat_profile a b c d e f g"]
  show ?thesis
    using r g f i by (auto simp: user_record_def)
qed

lemma requests_get_Some:
  "ep url (clock w) = Some r \<Longrightarrow>
     requests_get ep url w = (Inr r, w\<lparr>clock := clock w + 1, trace := trace w @ [Request url]\<rparr>)"
  by (simp add: requests_get_def)

lemma requests_get_None:
  "ep url (clock w) = None \<Longrightarrow>
     requests_get ep url w
       = (Inl ConnectionError, w\<lparr>clock := clock w + 1, trace := trace w @ [Request url]\<rparr>)"
  by (simp add: requests_get_def)

















lemma nameless_commit_count:
  "get_commit_count nameless_github ''octocat'' ''Unknown'' w
     = (Inr 1, w\<lparr>clock := clock w + 1,
                  trace := trace w @ [Request (repo_commits_url ''octocat'' ''Unknown'' ''per_page=1'')]\<rparr>)"
  by (simp add: get_commit_count_def io_bind_def requests_get_def nameless_github_def
      link_count_def header_value_def lift_def json_def body_length_def returns_def one_commit_def)

lemma nameless_loop:
  "\<exists>w'. repos_loop nameless_github isoparse_any ''octocat'' [nameless_repo] no_aggregates w
     = (Inr \<lparr>languages = [(''Python'', 10)], commits_per_repo = [(''Unknown'', 1)],
             stars_per_repo = [(''Unknown'', 2)], stars_per_language = [(''Python'', 2)],
             commit_dates = []\<rparr>, w')"
proof -
  have n: "or_str (name nameless_repo) ''Unknown'' = ''Unknown''"
    by (simp add: or_str_def nameless_repo_def)
  have c: "count_repo nameless_repo no_aggregates
             = \<lparr>languages = [(''Python'', 10)], commits_per_repo = [],
                stars_per_repo = [(''Unknown'', 2)], stars_per_language = [(''Python'', 2)],
                commit_dates = []\<rparr>"
    by (simp add: count_repo_def no_aggregates_def or_str_def or_int_def nameless_repo_def
        dict_get_def Let_def)
  have d: "response_dates isoparse_any (Response 200 [] (Some one_commit)) [] = Inr []"
    by (simp add: response_dates_def json_def body_dates_def one_commit_def)
  show ?thesis
    by (simp add: n io_bind_Inr [OF nameless_commit_count] c)
      (simp add: io_bind_def requests_get_def nameless_github_def lift_def d returns_def
        no_aggregates_def)
qed

text \<open>
  Claim C6 fails at a repository without a name: its commits are stored under
  \<^verbatim>\<open>"Unknown"\<close> in \<^verbatim>\<open>Commits Per Repo\<close> and looked up under \<^verbatim>\<open>""\<close> for
  \<^verbatim>\<open>Commits Per Language\<close>. The record has one commit in all, and none for the only
  language.
\<close>

theorem nameless_repo_commits_dropped:
  "record_field (fst (fetch_user_data nameless_github isoparse_any ''octocat'' world0))
     ''Commits Per Repo'' = Some (VDict [(''Unknown'', VInt 1)])
   \<and> record_field (fst (fetch_user_data nameless_github isoparse_any ''octocat'' world0))
     ''Languages'' = Some (VDict [(''Python'', VInt 10)])
   \<and> record_field (fst (fetch_user_data nameless_github isoparse_any ''octocat'' world0))
     ''Commits Per Language'' = Some (VDict [(''Python'', VInt 0)])
   \<and> record_field (fst (fetch_user_data nameless_github isoparse_any ''octocat'' world0))
     ''Total Commits'' = Some (VInt 1)"
proof -
  let ?a = "\<lparr>languages = [(''Python'', 10)], commits_per_repo = [(''Unknown'', 1)],
             stars_per_repo = [(''Unknown'', 2)], stars_per_language = [(''Python'', 2)],
             commit_dates = []\<rparr>"
  let ?w1 = "world0\<lparr>clock := clock world0 + 1,
                    trace := trace world0 @ [Request (users_url ''octocat'')]\<rparr>"
  let ?w2 = "?w1\<lparr>clock := clock ?w1 + 1,
               trace := trace ?w1 @ [Request (users_url ''octocat'' @ ''/repos?per_page=100'')]\<rparr>"
  let ?w3 = "?w2\<lparr>clock := clock ?w2 + 1,
               trace := trace ?w2 @ [Request (users_url ''octocat'' @ ''/starred?per_page=100'')]\<rparr>"
  have e1: "requests_get (profile_at nameless_github) (users_url ''octocat'') world0
              = (Inr (Response 200 [] (Some octocat_profile)), ?w1)"
    by (simp add: requests_get_def nameless_github_def)
  have e2: "requests_get (repos_at nameless_github) (users_url ''octocat'' @ ''/repos?per_page=100'') ?w1
              = (Inr (Response 200 [] (Some [nameless_repo])), ?w2)"
    by (simp add: requests_get_def nameless_github_def)
  have e3: "requests_get (items_at nameless_github) (users_url ''octocat'' @ ''/starred?per_page=100'') ?w2
              = (Inr (Response 200 [] (Some [])), ?w3)"
    by (simp add: requests_get_def nameless_github_def)
  have j1: "json_or_empty (Response 200 [] (Some [nameless_repo])) = Inr [nameless_repo]"
    by (simp add: json_or_empty_def json_def)
  have j2: "json_or_empty (Response 200 [] (Some ([] :: doc list))) = Inr []"
    by (simp add: json_or_empty_def json_def)
  obtain w4 where l: "repos_loop nameless_github isoparse_any ''octocat'' [nameless_repo]
                        no_aggregates ?w3 = (Inr ?a, w4)"
    using nameless_loop by blast
  have f: "fetch_user_data nameless_github isoparse_any ''octocat'' world0
          = (Inr (Some (dashboard_record ''octocat'' octocat_profile [nameless_repo] [] ?a)), w4)"
    unfolding fetch_user_data_def
    by (simp only: io_bind_def e1 e2 e3 l lift_def json_def j1 j2 returns_def response.sel
          prod.case sum.case option.case if_False simp_thms)
  have p: "commits_per_language_of [nameless_repo] ?a = [(''Python'', 0)]"
    by (simp add: commits_per_language_of_def language_commits_def or_str_def nameless_repo_def
        dict_get_def)
  show ?thesis
    unfolding f
    by (simp add: record_field_def dashboard_record_def p int_dict_val_def)
qed

text \<open>
  For repositories that all have a name, the key looked up for \<^verbatim>\<open>Commits Per Language\<close>
  is the key under which the loop stored the count.
\<close>

lemma language_commits_named:
  assumes "\<forall>repo\<in>set repos. \<exists>s. name repo = Some s \<and> s \<noteq> []"
  shows "language_commits repos cpr lang
           = sum_list (map (\<lambda>repo. dict_get cpr (or_str (name repo) ''Unknown'') 0)
                         (filter (\<lambda>repo. or_str (language repo) ''Unknown'' = lang) repos))"
proof -
  have "or_str (name repo) [] = or_str (name repo) ''Unknown''" if "repo \<in> set repos" for repo
    using assms that by (auto simp: or_str_def)
  then show ?thesis
    unfolding language_commits_def
    by (intro arg_cong [where f = sum_list] map_cong) auto
qed

declare decimal.simps [simp del]
















lemma last_decimal: "last (decimal n) = digit_char (n mod 10)"
  by (subst decimal.simps) simp






























end
